theory Spec2Isabelle
  imports Complex_Main "HOL-Library.AList"
begin

section \<open>Numbers, identifiers and configuration\<close>

text \<open>
  JavaScript numbers are modelled as \<^typ>\<open>real\<close>: the arithmetic of the combat core is
  read over the reals (no rounding, no NaN, no infinities).  Object identifiers are the
  strings the source uses as keys of its \<^verbatim>\<open>Map\<close>s.  A \<^verbatim>\<open>Map\<close> is an association
  list in insertion order; \<^const>\<open>map_of\<close> is \<^verbatim>\<open>Map.get\<close> and \<^const>\<open>AList.update\<close> is
  \<^verbatim>\<open>Map.set\<close> (an existing key keeps its place, a new key goes to the end).
\<close>

type_synonym ident = string

text \<open>\<^verbatim>\<open>v || d\<close> on an optional number: an absent value and the number 0 are both falsy.\<close>

definition orElse :: "real option \<Rightarrow> real \<Rightarrow> real" where
  "orElse v d = (case v of None \<Rightarrow> d | Some r \<Rightarrow> if r = 0 then d else r)"

text \<open>\<^verbatim>\<open>Set.add\<close> on a set kept in insertion order.\<close>

definition Set_add :: "'a \<Rightarrow> 'a list \<Rightarrow> 'a list" where
  "Set_add v xs = (if v \<in> set xs then xs else xs @ [v])"

text \<open>Truthiness of an optional number, as in \<^verbatim>\<open>if (ability.knockback)\<close>.\<close>

definition truthy :: "real option \<Rightarrow> bool" where
  "truthy v = (case v of None \<Rightarrow> False | Some r \<Rightarrow> r \<noteq> 0)"

text \<open>The entries of \<^verbatim>\<open>window.gameConfig\<close> that the combat core reads.\<close>

definition gameConfig_maxHealth :: real where "gameConfig_maxHealth = 100"
definition gameConfig_attackDamage_light :: real where "gameConfig_attackDamage_light = 15"
definition gameConfig_moveSpeed :: real where "gameConfig_moveSpeed = 200"
definition gameConfig_dashSpeed :: real where "gameConfig_dashSpeed = 400"
definition gameConfig_dashDuration :: real where "gameConfig_dashDuration = 3 / 10"
definition gameConfig_dashCooldown :: real where "gameConfig_dashCooldown = 2"
definition gameConfig_blockReduction :: real where "gameConfig_blockReduction = 1 / 2"
definition gameConfig_blockCooldown :: real where "gameConfig_blockCooldown = 1"
definition gameConfig_arenaWidth :: real where "gameConfig_arenaWidth = 800"
definition gameConfig_arenaHeight :: real where "gameConfig_arenaHeight = 600"
definition gameConfig_battleDuration :: real where "gameConfig_battleDuration = 30"

section \<open>The physics engine (class PhysicsEngine)\<close>

datatype shape = Rectangle | Circle

text \<open>
  A physics body.  The callbacks of the source are closures supplied by the owner of the
  body; the model records whether a handler is registered and logs the notification the
  engine sends to it (\<^verbatim>\<open>onTriggerExit\<close> is stored by the source and never called).  \<open>b_collidingWith\<close> is the \<^verbatim>\<open>Set\<close> of ids in insertion order.
  The source's \<^verbatim>\<open>shape\<close> is a string; the two values the engine distinguishes are
  the constructors of \<^typ>\<open>shape\<close>.
\<close>

record body =
  b_id :: ident
  b_x :: real
  b_y :: real
  b_width :: real
  b_height :: real
  b_vx :: real
  b_vy :: real
  b_mass :: real
  b_restitution :: real
  b_friction :: real
  b_isStatic :: bool
  b_isTrigger :: bool
  b_layer :: string
  b_shape :: shape
  b_radius :: real
  b_onCollisionEnter :: bool
  b_onCollisionExit :: bool
  b_onTriggerEnter :: bool
  b_grounded :: bool
  b_collidingWith :: "ident list"
  b_lastPosition :: "real \<times> real"

record bodyConfig =
  cfg_x :: "real option"
  cfg_y :: "real option"
  cfg_width :: "real option"
  cfg_height :: "real option"
  cfg_vx :: "real option"
  cfg_vy :: "real option"
  cfg_mass :: "real option"
  cfg_restitution :: "real option"
  cfg_friction :: "real option"
  cfg_isStatic :: bool
  cfg_isTrigger :: bool
  cfg_layer :: string
  cfg_shape :: "shape option"
  cfg_radius :: "real option"
  cfg_onCollisionEnter :: bool
  cfg_onCollisionExit :: bool
  cfg_onTriggerEnter :: bool

datatype event =
  CollisionEnter ident ident
  | CollisionExit ident "ident option"
  | TriggerEnter ident ident

type_synonym bodies = "(ident \<times> body) list"

definition gravity :: real where "gravity = 980"

text \<open>\<^verbatim>\<open>createBody(id, config)\<close>: the body built from a configuration, with the defaults.\<close>

definition newBody :: "ident \<Rightarrow> bodyConfig \<Rightarrow> body" where
  "newBody i config =
    \<lparr> b_id = i,
      b_x = orElse (cfg_x config) 0,
      b_y = orElse (cfg_y config) 0,
      b_width = orElse (cfg_width config) 32,
      b_height = orElse (cfg_height config) 32,
      b_vx = orElse (cfg_vx config) 0,
      b_vy = orElse (cfg_vy config) 0,
      b_mass = orElse (cfg_mass config) 1,
      b_restitution = orElse (cfg_restitution config) (3 / 10),
      b_friction = orElse (cfg_friction config) (8 / 10),
      b_isStatic = cfg_isStatic config,
      b_isTrigger = cfg_isTrigger config,
      b_layer = (if cfg_layer config = [] then ''default'' else cfg_layer config),
      b_shape = (case cfg_shape config of None \<Rightarrow> Rectangle | Some s \<Rightarrow> s),
      b_radius = orElse (cfg_radius config)
                   (min (orElse (cfg_width config) 32) (orElse (cfg_height config) 32) / 2),
      b_onCollisionEnter = cfg_onCollisionEnter config,
      b_onCollisionExit = cfg_onCollisionExit config,
      b_onTriggerEnter = cfg_onTriggerEnter config,
      b_grounded = False,
      b_collidingWith = [],
      b_lastPosition = (orElse (cfg_x config) 0, orElse (cfg_y config) 0) \<rparr>"

definition createBody :: "ident \<Rightarrow> bodyConfig \<Rightarrow> bodies \<Rightarrow> bodies" where
  "createBody i config bs = AList.update i (newBody i config) bs"

definition removeBody :: "ident \<Rightarrow> bodies \<Rightarrow> bodies" where
  "removeBody i bs = AList.delete i bs"

definition getBody :: "bodies \<Rightarrow> ident \<Rightarrow> body option" where
  "getBody bs i = map_of bs i"

text \<open>
  \<^verbatim>\<open>Math.pow(base, exponent)\<close> for a positive base, and for exponent 0.  A zero base
  with a negative exponent and a negative base with a fractional exponent give
  \<^verbatim>\<open>Infinity\<close> and \<^verbatim>\<open>NaN\<close> in the source, which \<^typ>\<open>real\<close> does not have;
  \<^verbatim>\<open>createBody\<close> replaces a zero friction by 0.8.
\<close>

definition Math_pow :: "real \<Rightarrow> real \<Rightarrow> real" where
  "Math_pow base e = (if e = 0 then 1 else base powr e)"

definition constrainToArena :: "body \<Rightarrow> body" where
  "constrainToArena body =
    (let margin = 10;
         b1 = (if b_x body < margin
               then body\<lparr>b_x := margin, b_vx := \<bar>b_vx body\<bar> * b_restitution body\<rparr>
               else body);
         b2 = (if b_x b1 + b_width b1 > gameConfig_arenaWidth - margin
               then b1\<lparr>b_x := gameConfig_arenaWidth - margin - b_width b1,
                        b_vx := - \<bar>b_vx b1\<bar> * b_restitution b1\<rparr>
               else b1);
         b3 = (if b_y b2 < margin
               then b2\<lparr>b_y := margin, b_vy := \<bar>b_vy b2\<bar> * b_restitution b2\<rparr>
               else b2)
     in if b_y b3 + b_height b3 > gameConfig_arenaHeight - margin
        then b3\<lparr>b_y := gameConfig_arenaHeight - margin - b_height b3, b_vy := 0,
                 b_grounded := True\<rparr>
        else b3)"

definition updateBody :: "body \<Rightarrow> real \<Rightarrow> body" where
  "updateBody body deltaTime =
    (if b_isStatic body then body
     else
       let b1 = body\<lparr>b_lastPosition := (b_x body, b_y body)\<rparr>;
           b2 = (if \<not> b_grounded b1 \<and> b_mass b1 > 0
                 then b1\<lparr>b_vy := b_vy b1 + gravity * deltaTime\<rparr> else b1);
           b3 = b2\<lparr>b_vx := b_vx b2 * Math_pow (b_friction b2) deltaTime\<rparr>;
           b4 = b3\<lparr>b_x := b_x b3 + b_vx b3 * deltaTime\<rparr>;
           b5 = b4\<lparr>b_y := b_y b4 + b_vy b4 * deltaTime\<rparr>;
           b6 = constrainToArena b5
       in b6\<lparr>b_grounded := False\<rparr>)"

definition checkRectangleCollision :: "body \<Rightarrow> body \<Rightarrow> bool" where
  "checkRectangleCollision rectA rectB \<longleftrightarrow>
     b_x rectA < b_x rectB + b_width rectB \<and>
     b_x rectA + b_width rectA > b_x rectB \<and>
     b_y rectA < b_y rectB + b_height rectB \<and>
     b_y rectA + b_height rectA > b_y rectB"

definition checkCircleCollision :: "body \<Rightarrow> body \<Rightarrow> bool" where
  "checkCircleCollision circleA circleB =
    (let dx = (b_x circleA + b_radius circleA) - (b_x circleB + b_radius circleB);
         dy = (b_y circleA + b_radius circleA) - (b_y circleB + b_radius circleB);
         distance = sqrt (dx * dx + dy * dy)
     in distance < b_radius circleA + b_radius circleB)"

definition checkCircleRectangleCollision :: "body \<Rightarrow> body \<Rightarrow> bool" where
  "checkCircleRectangleCollision circle rect =
    (let circleX = b_x circle + b_radius circle;
         circleY = b_y circle + b_radius circle;
         closestX = max (b_x rect) (min circleX (b_x rect + b_width rect));
         closestY = max (b_y rect) (min circleY (b_y rect + b_height rect));
         dx = circleX - closestX;
         dy = circleY - closestY;
         distance = sqrt (dx * dx + dy * dy)
     in distance < b_radius circle)"

definition checkCollision :: "body \<Rightarrow> body \<Rightarrow> bool" where
  "checkCollision bodyA bodyB =
    (if b_shape bodyA = Rectangle \<and> b_shape bodyB = Rectangle
     then checkRectangleCollision bodyA bodyB
     else if b_shape bodyA = Circle \<and> b_shape bodyB = Circle
     then checkCircleCollision bodyA bodyB
     else
       let circle = (if b_shape bodyA = Circle then bodyA else bodyB);
           rect = (if b_shape bodyA = Rectangle then bodyA else bodyB)
       in checkCircleRectangleCollision circle rect)"

text \<open>
  \<^verbatim>\<open>handleTriggerCollision\<close>: the first trigger of the pair records the other body's id
  and, the first time only, notifies its \<^verbatim>\<open>onTriggerEnter\<close> handler.  The result is the
  pair of bodies after the call and the notifications sent.
\<close>

definition handleTriggerCollision :: "body \<Rightarrow> body \<Rightarrow> body \<times> body \<times> event list" where
  "handleTriggerCollision bodyA bodyB =
    (let trigger = (if b_isTrigger bodyA then bodyA else bodyB);
         other = (if b_isTrigger bodyA then bodyB else bodyA)
     in if b_id other \<notin> set (b_collidingWith trigger)
        then
          let trigger' = trigger\<lparr>b_collidingWith := Set_add (b_id other) (b_collidingWith trigger)\<rparr>;
              evs = (if b_onTriggerEnter trigger then [TriggerEnter (b_id trigger) (b_id other)]
                     else [])
          in if b_isTrigger bodyA then (trigger', bodyB, evs) else (bodyA, trigger', evs)
        else (bodyA, bodyB, []))"

record collision =
  overlap :: real
  normalX :: real
  normalY :: real
  distance :: real

definition calculateCollisionData :: "body \<Rightarrow> body \<Rightarrow> collision" where
  "calculateCollisionData bodyA bodyB =
    (let centerAX = b_x bodyA + b_width bodyA / 2;
         centerAY = b_y bodyA + b_height bodyA / 2;
         centerBX = b_x bodyB + b_width bodyB / 2;
         centerBY = b_y bodyB + b_height bodyB / 2;
         dx = centerBX - centerAX;
         dy = centerBY - centerAY;
         dist = sqrt (dx * dx + dy * dy);
         overlapX = (b_width bodyA + b_width bodyB) / 2 - \<bar>dx\<bar>;
         overlapY = (b_height bodyA + b_height bodyB) / 2 - \<bar>dy\<bar>
     in if overlapX < overlapY
        then \<lparr> overlap = overlapX, normalX = (if dx < 0 then - 1 else 1), normalY = 0,
               distance = dist \<rparr>
        else \<lparr> overlap = overlapY, normalX = 0, normalY = (if dy < 0 then - 1 else 1),
               distance = dist \<rparr>)"

definition separateBodies :: "body \<Rightarrow> body \<Rightarrow> collision \<Rightarrow> body \<times> body" where
  "separateBodies bodyA bodyB col =
    (let totalMass = b_mass bodyA + b_mass bodyB;
         separationA = (if b_isStatic bodyB then overlap col
                        else (b_mass bodyB / totalMass) * overlap col);
         separationB = (if b_isStatic bodyA then overlap col
                        else (b_mass bodyA / totalMass) * overlap col);
         bodyA' = (if \<not> b_isStatic bodyA
                   then bodyA\<lparr>b_x := b_x bodyA - separationA * normalX col,
                               b_y := b_y bodyA - separationA * normalY col\<rparr>
                   else bodyA);
         bodyB' = (if \<not> b_isStatic bodyB
                   then bodyB\<lparr>b_x := b_x bodyB + separationB * normalX col,
                               b_y := b_y bodyB + separationB * normalY col\<rparr>
                   else bodyB)
     in (bodyA', bodyB'))"

definition applyCollisionResponse :: "body \<Rightarrow> body \<Rightarrow> collision \<Rightarrow> body \<times> body" where
  "applyCollisionResponse bodyA bodyB col =
    (let relativeVelX = b_vx bodyB - b_vx bodyA;
         relativeVelY = b_vy bodyB - b_vy bodyA;
         velAlongNormal = relativeVelX * normalX col + relativeVelY * normalY col
     in if velAlongNormal > 0 then (bodyA, bodyB)
        else
          let restitution = min (b_restitution bodyA) (b_restitution bodyB);
              impulse = - (1 + restitution) * velAlongNormal;
              totalMass = b_mass bodyA + b_mass bodyB;
              impulseScalar = impulse / totalMass;
              bodyA' = (if \<not> b_isStatic bodyA
                        then bodyA\<lparr>b_vx := b_vx bodyA - impulseScalar * b_mass bodyB * normalX col,
                                    b_vy := b_vy bodyA - impulseScalar * b_mass bodyB * normalY col,
                                    b_grounded := (if normalY col < - (1 / 2) then True
                                                   else b_grounded bodyA)\<rparr>
                        else bodyA);
              bodyB' = (if \<not> b_isStatic bodyB
                        then bodyB\<lparr>b_vx := b_vx bodyB + impulseScalar * b_mass bodyA * normalX col,
                                    b_vy := b_vy bodyB + impulseScalar * b_mass bodyA * normalY col,
                                    b_grounded := (if normalY col > 1 / 2 then True
                                                   else b_grounded bodyB)\<rparr>
                        else bodyB)
          in (bodyA', bodyB'))"

definition resolveCollision :: "body \<Rightarrow> body \<Rightarrow> body \<times> body \<times> event list" where
  "resolveCollision bodyA bodyB =
    (if b_isTrigger bodyA \<or> b_isTrigger bodyB then handleTriggerCollision bodyA bodyB
     else if b_isStatic bodyA \<and> b_isStatic bodyB then (bodyA, bodyB, [])
     else
       let fresh = (b_id bodyB \<notin> set (b_collidingWith bodyA));
           a1 = (if fresh then bodyA\<lparr>b_collidingWith := Set_add (b_id bodyB) (b_collidingWith bodyA)\<rparr>
                 else bodyA);
           b1 = (if fresh then bodyB\<lparr>b_collidingWith := Set_add (b_id bodyA) (b_collidingWith bodyB)\<rparr>
                 else bodyB);
           evs = (if fresh
                  then (if b_onCollisionEnter bodyA then [CollisionEnter (b_id bodyA) (b_id bodyB)] else [])
                     @ (if b_onCollisionEnter bodyB then [CollisionEnter (b_id bodyB) (b_id bodyA)] else [])
                  else []);
           col = calculateCollisionData a1 b1
       in if overlap col > 0
          then
            let (a2, b2) = separateBodies a1 b1 col;
                (a3, b3) = applyCollisionResponse a2 b2 col
            in (a3, b3, evs)
          else (a1, b1, evs))"

text \<open>
  \<^verbatim>\<open>checkCollisions\<close>: the nested loop over the index pairs \<open>i < j\<close> of the array of
  bodies.  The array holds references, so each pair reads the bodies as the earlier
  pairs left them.
\<close>

definition indexPairs :: "nat \<Rightarrow> (nat \<times> nat) list" where
  "indexPairs n = concat (map (\<lambda>i. map (Pair i) [Suc i..<n]) [0..<n])"

definition checkPair :: "bodies \<times> event list \<Rightarrow> nat \<times> nat \<Rightarrow> bodies \<times> event list" where
  "checkPair st ij =
    (let bs = fst st; i = fst ij; j = snd ij;
         bodyA = snd (bs ! i); bodyB = snd (bs ! j)
     in if checkCollision bodyA bodyB
        then
          let (a', b', evs) = resolveCollision bodyA bodyB
          in ((bs[i := (fst (bs ! i), a')])[j := (fst (bs ! j), b')], snd st @ evs)
        else st)"

definition checkCollisions :: "bodies \<Rightarrow> bodies \<times> event list" where
  "checkCollisions bs = foldl checkPair (bs, []) (indexPairs (length bs))"

text \<open>\<^verbatim>\<open>PhysicsEngine.update(deltaTime)\<close>: every body is updated, then collisions are checked.\<close>

definition PhysicsEngine_update :: "real \<Rightarrow> bodies \<Rightarrow> bodies \<times> event list" where
  "PhysicsEngine_update deltaTime bs =
     checkCollisions (map (\<lambda>kb. (fst kb, updateBody (snd kb) deltaTime)) bs)"

definition applyImpulse :: "ident \<Rightarrow> real \<Rightarrow> real \<Rightarrow> bodies \<Rightarrow> bodies" where
  "applyImpulse i impulseX impulseY bs =
    (case getBody bs i of
       None \<Rightarrow> bs
     | Some body \<Rightarrow>
         if b_isStatic body then bs
         else AList.update i (body\<lparr>b_vx := b_vx body + impulseX, b_vy := b_vy body + impulseY\<rparr>) bs)"

definition setVelocity :: "ident \<Rightarrow> real \<Rightarrow> real \<Rightarrow> bodies \<Rightarrow> bodies" where
  "setVelocity i vx vy bs =
    (case getBody bs i of
       None \<Rightarrow> bs
     | Some body \<Rightarrow>
         if b_isStatic body then bs
         else AList.update i (body\<lparr>b_vx := vx, b_vy := vy\<rparr>) bs)"

text \<open>
  \<^verbatim>\<open>getBodiesInRadius(x, y, radius, layer)\<close>: the bodies, in the order of the map, whose
  centre is at most \<open>radius\<close> away from \<open>(x, y)\<close>; a non-empty layer name filters.
\<close>

definition inRadius :: "real \<Rightarrow> real \<Rightarrow> real \<Rightarrow> body \<Rightarrow> bool" where
  "inRadius x y radius body =
    (let bodyX = b_x body + b_width body / 2;
         bodyY = b_y body + b_height body / 2;
         dist = sqrt ((bodyX - x)\<^sup>2 + (bodyY - y)\<^sup>2)
     in dist \<le> radius)"

definition getBodiesInRadius :: "real \<Rightarrow> real \<Rightarrow> real \<Rightarrow> string \<Rightarrow> bodies \<Rightarrow> body list" where
  "getBodiesInRadius x y radius layer bs =
     filter (\<lambda>body. \<not> (layer \<noteq> [] \<and> b_layer body \<noteq> layer) \<and> inRadius x y radius body)
       (map snd bs)"

text \<open>
  \<^verbatim>\<open>cleanupCollisions\<close>: every body keeps, of the ids it is colliding with, those whose
  body still exists and still overlaps it; the others are reported to
  \<^verbatim>\<open>onCollisionExit\<close>.  No method of the repository calls it.
\<close>

definition stillColliding :: "bodies \<Rightarrow> body \<Rightarrow> ident \<Rightarrow> bool" where
  "stillColliding bs body otherId =
    (case getBody bs otherId of None \<Rightarrow> False | Some otherBody \<Rightarrow> checkCollision body otherBody)"

definition cleanupCollisions :: "bodies \<Rightarrow> bodies \<times> event list" where
  "cleanupCollisions bs =
    (map (\<lambda>kb. (fst kb, (snd kb)\<lparr>b_collidingWith :=
                    filter (stillColliding bs (snd kb)) (b_collidingWith (snd kb))\<rparr>)) bs,
     concat (map (\<lambda>kb.
        if b_onCollisionExit (snd kb)
        then map (\<lambda>otherId. CollisionExit (b_id (snd kb)) (map_option b_id (getBody bs otherId)))
               (filter (\<lambda>otherId. \<not> stillColliding bs (snd kb) otherId) (b_collidingWith (snd kb)))
        else []) bs))"

section \<open>Characters (class Character)\<close>

record ability =
  atk_damage :: real
  atk_range :: real
  atk_cooldown :: real
  atk_knockback :: "real option"
  atk_stun :: "real option"
  atk_teleport :: bool
  atk_projectile :: bool

record blockAbility =
  blk_reduction :: real
  blk_cooldown :: real

record dashAbility =
  dsh_speed :: real
  dsh_duration :: real
  dsh_cooldown :: real

record rageAbility =
  rage_duration :: real
  rage_cooldown :: real
  rage_damageMultiplier :: real
  rage_speedMultiplier :: real

record abilities =
  ab_lightAttack :: ability
  ab_heavyAttack :: "ability option"
  ab_block :: blockAbility
  ab_dash :: dashAbility
  ab_shadowStrike :: "ability option"
  ab_shieldBash :: "ability option"
  ab_fireball :: "ability option"
  ab_rage :: "rageAbility option"

record animation =
  anim_current :: string
  anim_frame :: nat
  anim_timer :: real
  anim_speed :: real

text \<open>
  The fields of a \<^verbatim>\<open>Character\<close> that its methods read or write.  \<open>rageActive\<close>,
  \<open>rageDuration\<close> and \<open>rageCooldown\<close> are not set by the constructor: an undefined
  flag is falsy, and an undefined number is \<open>None\<close> (every comparison with it is false).
  The display fields (name, colour, size, z-index) and the two statistics read only by
  the opponent policy (\<^verbatim>\<open>attackDamage\<close>, \<^verbatim>\<open>attackRange\<close>) are left out.
\<close>

record character =
  c_id :: ident
  c_type :: string
  c_x :: real
  c_y :: real
  c_width :: real
  c_height :: real
  c_vx :: real
  c_vy :: real
  maxHealth :: real
  health :: real
  speed :: real
  defense :: real
  facingRight :: bool
  isGrounded :: bool
  isAttacking :: bool
  isBlocking :: bool
  isDashing :: bool
  isStunned :: bool
  isDead :: bool
  attackCooldown :: real
  blockCooldown :: real
  dashCooldown :: real
  stunDuration :: real
  invulnerabilityTime :: real
  animation :: animation
  abilities :: abilities
  rageActive :: bool
  rageDuration :: "real option"
  rageCooldown :: "real option"

record charConfig =
  ccfg_type :: string
  ccfg_x :: "real option"
  ccfg_y :: "real option"
  ccfg_width :: "real option"
  ccfg_height :: "real option"
  ccfg_maxHealth :: "real option"
  ccfg_speed :: "real option"
  ccfg_defense :: "real option"

definition baseAbilities :: abilities where
  "baseAbilities =
    \<lparr> ab_lightAttack = \<lparr> atk_damage = gameConfig_attackDamage_light, atk_range = 50,
                         atk_cooldown = 1 / 2, atk_knockback = Some 100, atk_stun = None,
                         atk_teleport = False, atk_projectile = False \<rparr>,
      ab_heavyAttack = None,
      ab_block = \<lparr> blk_reduction = gameConfig_blockReduction,
                   blk_cooldown = gameConfig_blockCooldown \<rparr>,
      ab_dash = \<lparr> dsh_speed = gameConfig_dashSpeed, dsh_duration = gameConfig_dashDuration,
                  dsh_cooldown = gameConfig_dashCooldown \<rparr>,
      ab_shadowStrike = None, ab_shieldBash = None, ab_fireball = None, ab_rage = None \<rparr>"

definition getDefaultAbilities :: "string \<Rightarrow> abilities" where
  "getDefaultAbilities ty =
    (if ty = ''ninja'' then
       baseAbilities
         \<lparr> ab_lightAttack := (ab_lightAttack baseAbilities)\<lparr>atk_damage := 12, atk_cooldown := 3 / 10\<rparr>,
           ab_dash := (ab_dash baseAbilities)\<lparr>dsh_cooldown := 3 / 2\<rparr>,
           ab_shadowStrike := Some \<lparr> atk_damage = 20, atk_range = 80, atk_cooldown = 3,
                                     atk_knockback = None, atk_stun = None,
                                     atk_teleport = True, atk_projectile = False \<rparr> \<rparr>
     else if ty = ''knight'' then
       baseAbilities
         \<lparr> ab_lightAttack := (ab_lightAttack baseAbilities)\<lparr>atk_damage := 20, atk_knockback := Some 150\<rparr>,
           ab_block := (ab_block baseAbilities)\<lparr>blk_reduction := 7 / 10\<rparr>,
           ab_shieldBash := Some \<lparr> atk_damage = 15, atk_range = 40, atk_cooldown = 2,
                                   atk_knockback = None, atk_stun = Some 1,
                                   atk_teleport = False, atk_projectile = False \<rparr> \<rparr>
     else if ty = ''mage'' then
       baseAbilities
         \<lparr> ab_lightAttack := (ab_lightAttack baseAbilities)\<lparr>atk_damage := 18, atk_range := 70\<rparr>,
           ab_fireball := Some \<lparr> atk_damage = 25, atk_range = 120, atk_cooldown = 5 / 2,
                                 atk_knockback = None, atk_stun = None,
                                 atk_teleport = False, atk_projectile = True \<rparr> \<rparr>
     else if ty = ''berserker'' then
       baseAbilities
         \<lparr> ab_lightAttack := (ab_lightAttack baseAbilities)\<lparr>atk_damage := 25, atk_cooldown := 6 / 10\<rparr>,
           ab_rage := Some \<lparr> rage_duration = 5, rage_cooldown = 15,
                             rage_damageMultiplier = 3 / 2, rage_speedMultiplier = 13 / 10 \<rparr> \<rparr>
     else baseAbilities)"

text \<open>
  The constructor.  \<^verbatim>\<open>CharacterSystem.createCharacter\<close> passes no abilities, so a
  character always has the default abilities of its type.
\<close>

definition newCharacter :: "ident \<Rightarrow> charConfig \<Rightarrow> character" where
  "newCharacter i config =
    (let ty = (if ccfg_type config = [] then ''base'' else ccfg_type config);
         mh = orElse (ccfg_maxHealth config) gameConfig_maxHealth
     in \<lparr> c_id = i, c_type = ty,
          c_x = orElse (ccfg_x config) 0, c_y = orElse (ccfg_y config) 0,
          c_width = orElse (ccfg_width config) 40, c_height = orElse (ccfg_height config) 60,
          c_vx = 0, c_vy = 0,
          maxHealth = mh, health = mh,
          speed = orElse (ccfg_speed config) gameConfig_moveSpeed,
          defense = orElse (ccfg_defense config) 0,
          facingRight = True, isGrounded = False, isAttacking = False, isBlocking = False,
          isDashing = False, isStunned = False, isDead = False,
          attackCooldown = 0, blockCooldown = 0, dashCooldown = 0, stunDuration = 0,
          invulnerabilityTime = 0,
          animation = \<lparr> anim_current = ''idle'', anim_frame = 0, anim_timer = 0, anim_speed = 8 \<rparr>,
          abilities = getDefaultAbilities ty,
          rageActive = False, rageDuration = None, rageCooldown = None \<rparr>)"

text \<open>\<^verbatim>\<open>createPhysicsBody\<close>: the configuration of the body a character registers.\<close>

definition characterBodyConfig :: "character \<Rightarrow> bodyConfig" where
  "characterBodyConfig c =
    \<lparr> cfg_x = Some (c_x c), cfg_y = Some (c_y c), cfg_width = Some (c_width c),
      cfg_height = Some (c_height c), cfg_vx = None, cfg_vy = None, cfg_mass = Some 1,
      cfg_restitution = Some (1 / 10), cfg_friction = Some (8 / 10),
      cfg_isStatic = False, cfg_isTrigger = False, cfg_layer = ''character'',
      cfg_shape = None, cfg_radius = None,
      cfg_onCollisionEnter = True, cfg_onCollisionExit = False, cfg_onTriggerEnter = True \<rparr>"

subsection \<open>Methods that touch only the character itself\<close>

definition setAnimation :: "string \<Rightarrow> character \<Rightarrow> character" where
  "setAnimation animationName c =
    (if anim_current (animation c) \<noteq> animationName
     then c\<lparr>animation := (animation c)\<lparr>anim_current := animationName, anim_frame := 0,
                                          anim_timer := 0\<rparr>\<rparr>
     else c)"

text \<open>\<^verbatim>\<open>getAnimationData\<close>: the number of frames and the loop flag.\<close>

definition getAnimationData :: "string \<Rightarrow> nat \<times> bool" where
  "getAnimationData animationName =
    (if animationName = ''idle'' then (4, True)
     else if animationName = ''run'' then (6, True)
     else if animationName = ''attack'' then (4, False)
     else if animationName = ''block'' then (1, True)
     else if animationName = ''dash'' then (3, False)
     else if animationName = ''hurt'' then (2, False)
     else if animationName = ''death'' then (5, False)
     else (4, True))"

definition updateTimers :: "real \<Rightarrow> character \<Rightarrow> character" where
  "updateTimers deltaTime c =
    (let c1 = c\<lparr>attackCooldown := max 0 (attackCooldown c - deltaTime)\<rparr>;
         c2 = c1\<lparr>blockCooldown := max 0 (blockCooldown c1 - deltaTime)\<rparr>;
         c3 = c2\<lparr>dashCooldown := max 0 (dashCooldown c2 - deltaTime)\<rparr>;
         c4 = c3\<lparr>stunDuration := max 0 (stunDuration c3 - deltaTime)\<rparr>;
         c5 = c4\<lparr>invulnerabilityTime := max 0 (invulnerabilityTime c4 - deltaTime)\<rparr>
     in if stunDuration c5 \<le> 0 then c5\<lparr>isStunned := False\<rparr> else c5)"

definition updateAnimation :: "real \<Rightarrow> character \<Rightarrow> character" where
  "updateAnimation deltaTime c =
    (let c1 = c\<lparr>animation := (animation c)\<lparr>anim_timer := anim_timer (animation c) + deltaTime\<rparr>\<rparr>;
         frameTime = 1 / anim_speed (animation c1);
         c2 = (if anim_timer (animation c1) \<ge> frameTime
               then
                 let c1a = c1\<lparr>animation := (animation c1)\<lparr>anim_frame := Suc (anim_frame (animation c1)),
                                                           anim_timer := 0\<rparr>\<rparr>;
                     animData = getAnimationData (anim_current (animation c1a))
                 in if anim_frame (animation c1a) \<ge> fst animData
                    then (if snd animData
                          then c1a\<lparr>animation := (animation c1a)\<lparr>anim_frame := 0\<rparr>\<rparr>
                          else setAnimation ''idle'' c1a)
                    else c1a
               else c1)
     in if \<not> isAttacking c2 \<and> \<not> isDashing c2
        then (if \<bar>c_vx c2\<bar> > 10 then setAnimation ''run'' c2 else setAnimation ''idle'' c2)
        else c2)"

definition updateRage :: "real \<Rightarrow> character \<Rightarrow> character" where
  "updateRage deltaTime c =
    (let c1 = (case rageDuration c of
                 Some d \<Rightarrow> if d > 0 then c\<lparr>rageDuration := Some (d - deltaTime)\<rparr> else c
               | None \<Rightarrow> c)
     in case rageCooldown c1 of
          Some d \<Rightarrow> if d > 0 then c1\<lparr>rageCooldown := Some (d - deltaTime)\<rparr> else c1
        | None \<Rightarrow> c1)"

definition updateAbilities :: "real \<Rightarrow> character \<Rightarrow> character" where
  "updateAbilities deltaTime c =
    (if c_type c = ''berserker'' then updateRage deltaTime c else c)"

text \<open>
  \<^verbatim>\<open>updatePosition\<close>: the character copies the state of its physics body.  The source
  holds a reference to the body it created; the model reads the body registered with the
  engine under the character's id.
\<close>

definition updatePosition :: "body option \<Rightarrow> character \<Rightarrow> character" where
  "updatePosition physicsBody c =
    (case physicsBody of
       None \<Rightarrow> c
     | Some b \<Rightarrow> c\<lparr>c_x := b_x b, c_y := b_y b, c_vx := b_vx b, c_vy := b_vy b,
                    isGrounded := b_grounded b\<rparr>)"

text \<open>
  \<^verbatim>\<open>takeDamage(amount, attacker)\<close>.  The damage indicator, the camera shake, the
  particles and the \<^verbatim>\<open>characterDamaged\<close> event (read by the damage statistics and
  the health bars) are presentation and are not modelled.
\<close>

definition takeDamage :: "real \<Rightarrow> character \<Rightarrow> character" where
  "takeDamage amount c =
    (if invulnerabilityTime c > 0 \<or> isDead c then c
     else setAnimation ''hurt''
            (c\<lparr>health := max 0 (health c - amount), invulnerabilityTime := 2 / 10\<rparr>))"


definition startBlock :: "character \<Rightarrow> bool \<times> character" where
  "startBlock c =
    (if blockCooldown c > 0 \<or> isStunned c \<or> isDead c then (False, c)
     else (True, setAnimation ''block'' (c\<lparr>isBlocking := True\<rparr>)))"

definition stopBlock :: "character \<Rightarrow> character" where
  "stopBlock c = c\<lparr>isBlocking := False, blockCooldown := blk_cooldown (ab_block (abilities c))\<rparr>"

text \<open>
  The multipliers read \<^verbatim>\<open>this.abilities.rage\<close> when the rage flag is set; the flag is
  only ever set by \<^verbatim>\<open>rage()\<close>, which requires the ability to exist.
\<close>

definition getDamageMultiplier :: "character \<Rightarrow> real" where
  "getDamageMultiplier c =
    (if c_type c = ''berserker'' \<and> rageActive c
     then (case ab_rage (abilities c) of Some r \<Rightarrow> 1 * rage_damageMultiplier r | None \<Rightarrow> 1)
     else 1)"

definition getSpeedMultiplier :: "character \<Rightarrow> real" where
  "getSpeedMultiplier c =
    (if c_type c = ''berserker'' \<and> rageActive c
     then (case ab_rage (abilities c) of Some r \<Rightarrow> 1 * rage_speedMultiplier r | None \<Rightarrow> 1)
     else 1)"

text \<open>
  \<^verbatim>\<open>rage()\<close>.  The timeout that clears the flag after the duration is a deferred
  callback and not part of the call.
\<close>

definition rage :: "character \<Rightarrow> bool \<times> character" where
  "rage c =
    (case ab_rage (abilities c) of
       None \<Rightarrow> (False, c)
     | Some a \<Rightarrow>
         if rageActive c \<or> (case rageCooldown c of Some d \<Rightarrow> d > 0 | None \<Rightarrow> False)
         then (False, c)
         else (True, c\<lparr>rageActive := True, rageDuration := Some (rage_duration a),
                        rageCooldown := Some (rage_cooldown a)\<rparr>))"

section \<open>The match: registry, battle system and game loop\<close>

text \<open>
  A projectile, as \<^verbatim>\<open>createProjectile\<close> builds it.  The source keeps a reference to
  the character that cast it; the model keeps the registry key of that character.  The
  colour is presentation and left out.
\<close>

record projectile =
  p_x :: real
  p_y :: real
  p_vx :: real
  p_vy :: real
  p_size :: real
  p_damage :: real
  p_owner :: ident
  p_life :: real

text \<open>
  The state the combat core shares: the bodies of the physics engine, the registry of the
  game engine, the game state and loop flags of the game engine, the battle system's
  activity flag and result, and the reading of the wall clock (\<^verbatim>\<open>Date.now()\<close>, in
  milliseconds), which the environment advances between calls.

  The registry \<^verbatim>\<open>gameEngine.gameObjects\<close> holds, during a battle, the two characters
  and the projectiles of the mage's fireball (\<^verbatim>\<open>startBattle\<close> clears it, the arena
  object included, before it registers the player and the opponent).  It is kept in two
  parts: the \<^verbatim>\<open>Character\<close> entries under their keys, in insertion order, and the
  projectiles, in insertion order, each under the clock reading \<open>n\<close> of its key
  \<^verbatim>\<open>projectile_n\<close>.  A projectile is registered by a character, hence after the
  characters, so the order of the \<^verbatim>\<open>Map\<close> is the characters followed by the
  projectiles.  A character is addressed by its registry key; its physics body is
  addressed by the character's id.  Camera, particles, rendering and the reward
  computation are not modelled.
\<close>

record world =
  bodies :: bodies
  gameObjects :: "(ident \<times> character) list"
  projectiles :: "(nat \<times> projectile) list"
  dateNow :: nat
  isRunning :: bool
  lastTime :: real
  isPlaying :: bool
  isPaused :: bool
  timeRemaining :: real
  winner :: "string option"
  isActive :: bool
  battleResult :: "string option"

definition getGameObject :: "world \<Rightarrow> ident \<Rightarrow> character option" where
  "getGameObject w i = map_of (gameObjects w) i"

definition updChar :: "ident \<Rightarrow> (character \<Rightarrow> character) \<Rightarrow> world \<Rightarrow> world" where
  "updChar i f w =
    (case getGameObject w i of
       None \<Rightarrow> w
     | Some c \<Rightarrow> w\<lparr>gameObjects := AList.update i (f c) (gameObjects w)\<rparr>)"

definition updPhysicsBody :: "ident \<Rightarrow> (body \<Rightarrow> body) \<Rightarrow> world \<Rightarrow> world" where
  "updPhysicsBody i f w =
    (case getBody (bodies w) i of
       None \<Rightarrow> w
     | Some b \<Rightarrow> w\<lparr>bodies := AList.update i (f b) (bodies w)\<rparr>)"

subsection \<open>Battle system\<close>

text \<open>
  \<^verbatim>\<open>BattleSystem.endBattle(result)\<close>: the first call of a battle records the result
  and stops the game engine; later calls do nothing.
\<close>

definition BattleSystem_endBattle :: "string \<Rightarrow> world \<Rightarrow> world" where
  "BattleSystem_endBattle result w =
    (if \<not> isActive w then w
     else w\<lparr>isActive := False, battleResult := Some result, isRunning := False,
             isPlaying := False\<rparr>)"

definition BattleSystem_handleCharacterDeath :: "ident \<Rightarrow> world \<Rightarrow> world" where
  "BattleSystem_handleCharacterDeath i w =
    (if \<not> isActive w then w
     else if i = ''player'' then BattleSystem_endBattle ''defeat'' w
     else if i = ''opponent'' then BattleSystem_endBattle ''victory'' w
     else w)"

definition BattleSystem_handleBattleEnd :: "string option \<Rightarrow> world \<Rightarrow> world" where
  "BattleSystem_handleBattleEnd detail_winner w =
    (if \<not> isActive w then w
     else if detail_winner = Some ''player'' then BattleSystem_endBattle ''victory'' w
     else if detail_winner = Some ''opponent'' then BattleSystem_endBattle ''defeat'' w
     else BattleSystem_endBattle ''draw'' w)"

subsection \<open>Character methods that reach the engine or other characters\<close>

definition Character_die :: "ident \<Rightarrow> world \<Rightarrow> world" where
  "Character_die i w =
    (case getGameObject w i of
       None \<Rightarrow> w
     | Some c \<Rightarrow>
         let w1 = updChar i (\<lambda>c. setAnimation ''death'' (c\<lparr>isDead := True, health := 0\<rparr>)) w;
             w2 = updPhysicsBody (c_id c) (\<lambda>b. b\<lparr>b_vx := 0, b_vy := 0\<rparr>) w1
         in BattleSystem_handleCharacterDeath i w2)"

text \<open>
  \<^verbatim>\<open>update(deltaTime)\<close>: a dead character returns at once; a live one updates its timers,
  its animation, its copy of the body's position and its abilities, and then checks for
  death.
\<close>

definition updateSelf :: "real \<Rightarrow> body option \<Rightarrow> character \<Rightarrow> character" where
  "updateSelf deltaTime physicsBody c =
    (let c1 = updateTimers deltaTime c;
         c2 = updateAnimation deltaTime c1;
         c3 = updatePosition physicsBody c2
     in updateAbilities deltaTime c3)"

definition Character_update :: "real \<Rightarrow> ident \<Rightarrow> world \<Rightarrow> world" where
  "Character_update deltaTime i w =
    (case getGameObject w i of
       None \<Rightarrow> w
     | Some c \<Rightarrow>
         if isDead c then w
         else
           let c4 = updateSelf deltaTime (getBody (bodies w) (c_id c)) c;
               w1 = w\<lparr>gameObjects := AList.update i c4 (gameObjects w)\<rparr>
           in if health c4 \<le> 0 \<and> \<not> isDead c4 then Character_die i w1 else w1)"

definition Character_move :: "real \<Rightarrow> real \<Rightarrow> ident \<Rightarrow> world \<Rightarrow> world" where
  "Character_move deltaX deltaY i w =
    (case getGameObject w i of
       None \<Rightarrow> w
     | Some c \<Rightarrow>
         if isStunned c \<or> isDashing c \<or> isDead c then w
         else
           let moveSpeed = speed c * getSpeedMultiplier c;
               w1 = updPhysicsBody (c_id c) (\<lambda>b. b\<lparr>b_vx := deltaX * moveSpeed\<rparr>) w
           in updChar i (\<lambda>c. if deltaX > 1 / 10 then c\<lparr>facingRight := True\<rparr>
                              else if deltaX < - (1 / 10) then c\<lparr>facingRight := False\<rparr>
                              else c) w1)"

definition Character_takeDamage :: "real \<Rightarrow> ident \<Rightarrow> world \<Rightarrow> world" where
  "Character_takeDamage amount i w = updChar i (takeDamage amount) w"


definition Character_startBlock :: "ident \<Rightarrow> world \<Rightarrow> bool \<times> world" where
  "Character_startBlock i w =
    (case getGameObject w i of
       None \<Rightarrow> (False, w)
     | Some c \<Rightarrow> (fst (startBlock c), updChar i (\<lambda>c. snd (startBlock c)) w))"

definition Character_stopBlock :: "ident \<Rightarrow> world \<Rightarrow> world" where
  "Character_stopBlock i w = updChar i stopBlock w"

definition Character_stun :: "real \<Rightarrow> ident \<Rightarrow> world \<Rightarrow> world" where
  "Character_stun duration i w =
    (case getGameObject w i of
       None \<Rightarrow> w
     | Some c \<Rightarrow>
         updPhysicsBody (c_id c) (\<lambda>b. b\<lparr>b_vx := b_vx b * (1 / 10)\<rparr>)
           (updChar i (\<lambda>c. c\<lparr>isStunned := True, stunDuration := duration\<rparr>) w))"

text \<open>
  \<^verbatim>\<open>dealDamage(target, ability)\<close>, called on the attacker \<open>i\<close> with target \<open>t\<close>.
  \<open>effectiveDamage\<close> is the amount handed to \<^verbatim>\<open>takeDamage\<close>.
\<close>

definition effectiveDamage :: "character \<Rightarrow> character \<Rightarrow> ability \<Rightarrow> real" where
  "effectiveDamage attacker target a =
    (let damage0 = atk_damage a * getDamageMultiplier attacker;
         damage1 = (if isBlocking target
                    then damage0 * (1 - blk_reduction (ab_block (abilities target)))
                    else damage0)
     in max 1 (damage1 - defense target))"

definition Character_dealDamage :: "ident \<Rightarrow> ident \<Rightarrow> ability \<Rightarrow> world \<Rightarrow> world" where
  "Character_dealDamage i t a w =
    (case getGameObject w i of
       None \<Rightarrow> w
     | Some attacker \<Rightarrow>
        (case getGameObject w t of
           None \<Rightarrow> w
         | Some target \<Rightarrow>
             if invulnerabilityTime target > 0 then w
             else
               let damage = effectiveDamage attacker target a;
                   w1 = Character_takeDamage damage t w;
                   w2 = (if truthy (atk_knockback a) \<and> \<not> isBlocking target
                         then
                           let knockbackX = (if facingRight attacker then the (atk_knockback a)
                                             else - the (atk_knockback a))
                           in w1\<lparr>bodies := applyImpulse (c_id target) knockbackX (- 50) (bodies w1)\<rparr>
                         else w1)
               in if truthy (atk_stun a) then Character_stun (the (atk_stun a)) t w2 else w2))"

text \<open>
  \<^verbatim>\<open>attack(ability)\<close>.  The hit window is the rectangle with corner
  \<open>(attackX, attackY)\<close>, width \<open>range\<close> and height \<open>height\<close>; the engine is asked for the
  bodies of layer \<^verbatim>\<open>character\<close> around the centre of that rectangle, within \<open>range / 2\<close>.
  The timeout that clears \<open>isAttacking\<close> 400 ms later is a deferred callback and not part
  of the call.
\<close>

definition attackX :: "character \<Rightarrow> ability \<Rightarrow> real" where
  "attackX c a = (if facingRight c then c_x c + c_width c else c_x c - atk_range a)"

definition attackTargets :: "character \<Rightarrow> ability \<Rightarrow> bodies \<Rightarrow> body list" where
  "attackTargets c a bs =
    (let attackY = c_y c; attackWidth = atk_range a; attackHeight = c_height c
     in getBodiesInRadius (attackX c a + attackWidth / 2) (attackY + attackHeight / 2)
          (atk_range a / 2) ''character'' bs)"

definition hitTarget :: "ident \<Rightarrow> ability \<Rightarrow> world \<Rightarrow> body \<Rightarrow> world" where
  "hitTarget i a w target =
    (if getGameObject w (b_id target) \<noteq> None \<and> b_id target \<noteq> i
     then Character_dealDamage i (b_id target) a w else w)"

definition Character_attack :: "ability \<Rightarrow> ident \<Rightarrow> world \<Rightarrow> world" where
  "Character_attack a i w =
    (case getGameObject w i of
       None \<Rightarrow> w
     | Some c \<Rightarrow>
         let w1 = updChar i (\<lambda>c. setAnimation ''attack'' (c\<lparr>isAttacking := True\<rparr>)) w;
             targets = attackTargets c a (bodies w1)
         in foldl (hitTarget i a) w1 targets)"

definition Character_lightAttack :: "ident \<Rightarrow> world \<Rightarrow> bool \<times> world" where
  "Character_lightAttack i w =
    (case getGameObject w i of
       None \<Rightarrow> (False, w)
     | Some c \<Rightarrow>
         if attackCooldown c > 0 \<or> isStunned c \<or> isDead c then (False, w)
         else
           let a = ab_lightAttack (abilities c)
           in (True, updChar i (\<lambda>c. c\<lparr>attackCooldown := atk_cooldown a\<rparr>) (Character_attack a i w)))"

definition Character_heavyAttack :: "ident \<Rightarrow> world \<Rightarrow> bool \<times> world" where
  "Character_heavyAttack i w =
    (case getGameObject w i of
       None \<Rightarrow> (False, w)
     | Some c \<Rightarrow>
         if attackCooldown c > 0 \<or> isStunned c \<or> isDead c then (False, w)
         else
           let a = (case ab_heavyAttack (abilities c) of
                      Some h \<Rightarrow> h | None \<Rightarrow> ab_lightAttack (abilities c));
               a' = a\<lparr>atk_damage := atk_damage a * (3 / 2), atk_cooldown := atk_cooldown a * 2\<rparr>
           in (True, updChar i (\<lambda>c. c\<lparr>attackCooldown := atk_cooldown a * 2\<rparr>)
                       (Character_attack a' i w)))"

text \<open>
  \<^verbatim>\<open>shadowStrike\<close>: the first registered character other than the caller that is not
  dead is the target; the caller teleports next to it and attacks.
\<close>

definition Character_shadowStrike :: "ident \<Rightarrow> world \<Rightarrow> bool \<times> world" where
  "Character_shadowStrike i w =
    (case getGameObject w i of
       None \<Rightarrow> (False, w)
     | Some c \<Rightarrow>
        (case ab_shadowStrike (abilities c) of
           None \<Rightarrow> (False, w)
         | Some a \<Rightarrow>
             if attackCooldown c > 0 then (False, w)
             else
               (case filter (\<lambda>ko. fst ko \<noteq> i \<and> \<not> isDead (snd ko)) (gameObjects w) of
                  [] \<Rightarrow> (False, w)
                | enemy # _ \<Rightarrow>
                    let target = snd enemy;
                        w1 = (if atk_teleport a
                              then
                                let nx = c_x target + (if facingRight c then - 60 else 60);
                                    ny = c_y target
                                in updPhysicsBody (c_id c) (\<lambda>b. b\<lparr>b_x := nx, b_y := ny\<rparr>)
                                     (updChar i (\<lambda>c. c\<lparr>c_x := nx, c_y := ny\<rparr>) w)
                              else w)
                    in (True, updChar i (\<lambda>c. c\<lparr>attackCooldown := atk_cooldown a\<rparr>)
                                (Character_attack a i w1)))))"

definition Character_shieldBash :: "ident \<Rightarrow> world \<Rightarrow> bool \<times> world" where
  "Character_shieldBash i w =
    (case getGameObject w i of
       None \<Rightarrow> (False, w)
     | Some c \<Rightarrow>
        (case ab_shieldBash (abilities c) of
           None \<Rightarrow> (False, w)
         | Some a \<Rightarrow>
             if attackCooldown c > 0 then (False, w)
             else (True, updChar i (\<lambda>c. c\<lparr>attackCooldown := atk_cooldown a\<rparr>)
                          (Character_attack a i w))))"

text \<open>
  \<^verbatim>\<open>createProjectile(ability)\<close> builds a projectile at the front edge of the caster,
  flying in the direction the caster faces, and registers it with the game engine under
  the key \<^verbatim>\<open>projectile_n\<close>, where \<open>n\<close> is the reading of the wall clock.
\<close>

definition createProjectile :: "ability \<Rightarrow> ident \<Rightarrow> world \<Rightarrow> world" where
  "createProjectile a i w =
    (case getGameObject w i of
       None \<Rightarrow> w
     | Some c \<Rightarrow>
         let projectile = \<lparr> p_x = c_x c + (if facingRight c then c_width c else 0),
                             p_y = c_y c + c_height c / 2,
                             p_vx = (if facingRight c then 1 else - 1) * 300,
                             p_vy = 0, p_size = 8, p_damage = atk_damage a,
                             p_owner = i, p_life = 2 \<rparr>
         in w\<lparr>projectiles := AList.update (dateNow w) projectile (projectiles w)\<rparr>)"

definition Character_fireball :: "ident \<Rightarrow> world \<Rightarrow> bool \<times> world" where
  "Character_fireball i w =
    (case getGameObject w i of
       None \<Rightarrow> (False, w)
     | Some c \<Rightarrow>
        (case ab_fireball (abilities c) of
           None \<Rightarrow> (False, w)
         | Some a \<Rightarrow>
             if attackCooldown c > 0 then (False, w)
             else (True, updChar i (\<lambda>c. c\<lparr>attackCooldown := atk_cooldown a\<rparr>)
                          (createProjectile a i w))))"

definition Character_rage :: "ident \<Rightarrow> world \<Rightarrow> bool \<times> world" where
  "Character_rage i w =
    (case getGameObject w i of
       None \<Rightarrow> (False, w)
     | Some c \<Rightarrow> (fst (rage c), updChar i (\<lambda>c. snd (rage c)) w))"

definition Character_specialAttack :: "ident \<Rightarrow> world \<Rightarrow> bool \<times> world" where
  "Character_specialAttack i w =
    (case getGameObject w i of
       None \<Rightarrow> (False, w)
     | Some c \<Rightarrow>
         if isStunned c \<or> isDead c then (False, w)
         else if c_type c = ''ninja'' then Character_shadowStrike i w
         else if c_type c = ''knight'' then Character_shieldBash i w
         else if c_type c = ''mage'' then Character_fireball i w
         else if c_type c = ''berserker'' then Character_rage i w
         else Character_lightAttack i w)"

text \<open>
  \<^verbatim>\<open>dash(directionX, directionY)\<close>.  The timeout that clears \<open>isDashing\<close> after the
  dash duration is a deferred callback and not part of the call.
\<close>

definition Character_dash :: "real \<Rightarrow> real \<Rightarrow> ident \<Rightarrow> world \<Rightarrow> bool \<times> world" where
  "Character_dash directionX directionY i w =
    (case getGameObject w i of
       None \<Rightarrow> (False, w)
     | Some c \<Rightarrow>
         if dashCooldown c > 0 \<or> isStunned c \<or> isDead c then (False, w)
         else
           let c1 = setAnimation ''dash'' (c\<lparr>isDashing := True\<rparr>);
               a = ab_dash (abilities c1);
               dashSpeed = dsh_speed a * getSpeedMultiplier c1;
               w1 = w\<lparr>bodies := setVelocity (c_id c1) (directionX * dashSpeed)
                                   (directionY * dashSpeed * (1 / 2)) (bodies w)\<rparr>
           in (True, w1\<lparr>gameObjects :=
                          AList.update i (c1\<lparr>dashCooldown := dsh_cooldown a\<rparr>) (gameObjects w1)\<rparr>))"

subsection \<open>Projectiles\<close>

text \<open>
  \<^verbatim>\<open>gameEngine.removeGameObject\<close> on the key \<^verbatim>\<open>projectile_n\<close>: an object under
  that key is a projectile, which has no \<^verbatim>\<open>destroy\<close> method, and is deleted from the
  registry; without such an object nothing happens.
\<close>

definition removeGameObject :: "nat \<Rightarrow> world \<Rightarrow> world" where
  "removeGameObject n w = w\<lparr>projectiles := AList.delete n (projectiles w)\<rparr>"

text \<open>
  The \<^verbatim>\<open>update(dt)\<close> of the object that \<^verbatim>\<open>createProjectile\<close> registers, for the
  projectile registered under \<open>key\<close>.  The projectile moves and ages.  When its life is
  over, and again when it hits, the source removes the game object whose key is built
  from the reading of the wall clock at that moment, not the key the projectile was
  registered under.  The projectile hits the first body of layer \<^verbatim>\<open>character\<close>,
  within its size of its position, whose id names a registered character other than its
  owner: that character takes the projectile's damage through \<^verbatim>\<open>takeDamage\<close>.
\<close>

definition moveProjectile :: "real \<Rightarrow> projectile \<Rightarrow> projectile" where
  "moveProjectile dt p =
    (let p1 = p\<lparr>p_x := p_x p + p_vx p * dt\<rparr>;
         p2 = p1\<lparr>p_y := p_y p1 + p_vy p1 * dt\<rparr>
     in p2\<lparr>p_life := p_life p2 - dt\<rparr>)"

definition projectileTarget :: "projectile \<Rightarrow> world \<Rightarrow> body option" where
  "projectileTarget p w =
     find (\<lambda>target. getGameObject w (b_id target) \<noteq> None \<and> b_id target \<noteq> p_owner p)
       (getBodiesInRadius (p_x p) (p_y p) (p_size p) ''character'' (bodies w))"

definition Projectile_update :: "real \<Rightarrow> nat \<Rightarrow> world \<Rightarrow> world" where
  "Projectile_update dt key w =
    (case map_of (projectiles w) key of
       None \<Rightarrow> w
     | Some p \<Rightarrow>
         let p' = moveProjectile dt p;
             w1 = w\<lparr>projectiles := AList.update key p' (projectiles w)\<rparr>;
             w2 = (if p_life p' \<le> 0 then removeGameObject (dateNow w1) w1 else w1)
         in case projectileTarget p' w2 of
              None \<Rightarrow> w2
            | Some target \<Rightarrow>
                removeGameObject (dateNow w2)
                  (Character_takeDamage (p_damage p') (b_id target) w2))"

subsection \<open>Game engine\<close>

text \<open>
  \<^verbatim>\<open>GameEngine.endBattle()\<close>: the winner by health, when both combatants are
  registered, and the \<^verbatim>\<open>battleEnd\<close> event, which the battle system handles at once.
\<close>

definition GameEngine_endBattle :: "world \<Rightarrow> world" where
  "GameEngine_endBattle w =
    (let w1 = w\<lparr>isPlaying := False\<rparr>;
         w2 = (case (getGameObject w1 ''player'', getGameObject w1 ''opponent'') of
                 (Some player, Some opponent) \<Rightarrow>
                   if health player > health opponent then w1\<lparr>winner := Some ''player''\<rparr>
                   else if health opponent > health player then w1\<lparr>winner := Some ''opponent''\<rparr>
                   else w1\<lparr>winner := Some ''draw''\<rparr>
               | _ \<Rightarrow> w1)
     in BattleSystem_handleBattleEnd (winner w2) w2)"

text \<open>
  \<^verbatim>\<open>GameEngine.update(deltaTime)\<close>: the camera shake, the update of every registered
  object in the order of the registry (the characters, then the projectiles; an object
  that an earlier update has removed is not visited), the particles, and the countdown.
\<close>

definition updateGameObjects :: "real \<Rightarrow> world \<Rightarrow> world" where
  "updateGameObjects deltaTime w =
    (let w1 = foldl (\<lambda>w i. Character_update deltaTime i w) w (map fst (gameObjects w))
     in foldl (\<lambda>w key. Projectile_update deltaTime key w) w1 (map fst (projectiles w1)))"

definition updateGameTimer :: "real \<Rightarrow> world \<Rightarrow> world" where
  "updateGameTimer deltaTime w =
    (if isPlaying w \<and> timeRemaining w > 0
     then
       let w1 = w\<lparr>timeRemaining := timeRemaining w - deltaTime\<rparr>
       in if timeRemaining w1 \<le> 0 then GameEngine_endBattle (w1\<lparr>timeRemaining := 0\<rparr>) else w1
     else w)"

definition GameEngine_update :: "real \<Rightarrow> world \<Rightarrow> world" where
  "GameEngine_update deltaTime w = updateGameTimer deltaTime (updateGameObjects deltaTime w)"

text \<open>
  \<^verbatim>\<open>GameEngine.gameLoop()\<close>, one iteration, with the reading of the clock (in
  milliseconds) as a parameter.
\<close>

definition GameEngine_gameLoop :: "real \<Rightarrow> world \<Rightarrow> world" where
  "GameEngine_gameLoop currentTime w =
    (if \<not> isRunning w then w
     else
       let deltaTime = min ((currentTime - lastTime w) / 1000) (1 / 30);
           w1 = w\<lparr>lastTime := currentTime\<rparr>
       in if \<not> isPaused w1 then GameEngine_update deltaTime w1 else w1)"

subsection \<open>Starting a battle\<close>

text \<open>
  \<^verbatim>\<open>CharacterSystem.createCharacter(id, type, config)\<close> looks the type up in its table
  of character types.  When the lookup finds nothing it logs an error, replaces the type
  by \<^verbatim>\<open>ninja\<close> and then reads the name of the entry it did not find, which throws a
  \<^verbatim>\<open>TypeError\<close>.  The table is an object literal, so the lookup also finds what
  every object inherits (\<^verbatim>\<open>toString\<close>, \<^verbatim>\<open>constructor\<close> and so on); such a
  type gives a character of that type, with the base abilities.  The configuration is
  spread over the type, so a type given in the configuration wins (an empty
  \<open>ccfg_type\<close> is a configuration without a type).  Name and colour are presentation.
\<close>

datatype error = TypeError

definition characterTypes :: "string list" where
  "characterTypes = [''ninja'', ''knight'', ''mage'', ''berserker'']"

definition inheritedKeys :: "string list" where
  "inheritedKeys =
     [''constructor'', ''hasOwnProperty'', ''isPrototypeOf'', ''propertyIsEnumerable'',
      ''toLocaleString'', ''toString'', ''valueOf'', ''__proto__'', ''__defineGetter__'',
      ''__defineSetter__'', ''__lookupGetter__'', ''__lookupSetter__'']"

definition createCharacter :: "ident \<Rightarrow> string \<Rightarrow> charConfig \<Rightarrow> error + character" where
  "createCharacter i ty config =
    (if ty \<in> set characterTypes \<or> ty \<in> set inheritedKeys
     then Inr (newCharacter i
                 (config\<lparr>ccfg_type := (if ccfg_type config = [] then ty else ccfg_type config)\<rparr>))
     else Inl TypeError)"

definition createPlayer :: "string \<Rightarrow> error + character" where
  "createPlayer characterType =
     createCharacter ''player'' characterType
       \<lparr> ccfg_type = [], ccfg_x = Some 150,
         ccfg_y = Some (gameConfig_arenaHeight - 200), ccfg_width = None, ccfg_height = None,
         ccfg_maxHealth = None, ccfg_speed = None, ccfg_defense = None \<rparr>"

definition createOpponent :: "string \<Rightarrow> error + character" where
  "createOpponent characterType =
     createCharacter ''opponent'' characterType
       \<lparr> ccfg_type = [], ccfg_x = Some (gameConfig_arenaWidth - 190),
         ccfg_y = Some (gameConfig_arenaHeight - 200), ccfg_width = None, ccfg_height = None,
         ccfg_maxHealth = None, ccfg_speed = None, ccfg_defense = None \<rparr>"

text \<open>
  \<^verbatim>\<open>BattleSystem.startBattle(config)\<close>, in an arena without platforms and from
  engines that hold nothing yet.  The parameters are the two character types of the
  configuration (empty when the configuration has none: the player is then a ninja and
  the opponent of the type that \<^verbatim>\<open>getRandomOpponentCharacter\<close> draws), that draw, and
  the readings of the two clocks (\<^verbatim>\<open>performance.now()\<close> for the loop,
  \<^verbatim>\<open>Date.now()\<close> for the wall clock).  The constructor of a character registers its
  body with the physics engine; the game engine is reset, the two characters are
  registered and the loop is started.  When a character cannot be created the exception
  leaves \<^verbatim>\<open>startBattle\<close>.
\<close>

definition startBattle :: "string \<Rightarrow> string \<Rightarrow> string \<Rightarrow> real \<Rightarrow> nat \<Rightarrow> error + world" where
  "startBattle playerCharacter opponentCharacter randomOpponent now clock =
    (case createPlayer (if playerCharacter = [] then ''ninja'' else playerCharacter) of
       Inl e \<Rightarrow> Inl e
     | Inr player \<Rightarrow>
        (case createOpponent (if opponentCharacter = [] then randomOpponent
                              else opponentCharacter) of
           Inl e \<Rightarrow> Inl e
         | Inr opponent \<Rightarrow>
             Inr \<lparr> bodies = createBody (c_id opponent) (characterBodyConfig opponent)
                             (createBody (c_id player) (characterBodyConfig player) []),
                   gameObjects = AList.update ''opponent'' opponent
                                   (AList.update ''player'' player []),
                   projectiles = [], dateNow = clock,
                   isRunning = True, lastTime = now, isPlaying = True, isPaused = False,
                   timeRemaining = gameConfig_battleDuration, winner = None,
                   isActive = True, battleResult = None \<rparr>))"

section \<open>Sequences of calls on one combatant\<close>






section \<open>Positions and the hit window of an attack\<close>

text \<open>The positions of the bodies of the engine, in the order of the map.\<close>

definition positions :: "bodies \<Rightarrow> (ident \<times> real \<times> real) list" where
  "positions bs = map (\<lambda>kb. (fst kb, b_x (snd kb), b_y (snd kb))) bs"





section \<open>Example states\<close>

text \<open>
  A fresh battle: the world that \<^verbatim>\<open>startBattle\<close> returns for the two given character
  types, with both clocks at 0, and the player and the opponent it has created.  For the
  four character types \<^verbatim>\<open>startBattle\<close> does return a world (lemma
  \<open>startBattle_returns\<close>).
\<close>

definition freshBattle :: "string \<Rightarrow> string \<Rightarrow> world" where
  "freshBattle playerCharacter opponentCharacter =
     projr (startBattle playerCharacter opponentCharacter ''ninja'' 0 0)"

definition freshPlayer :: "string \<Rightarrow> character" where
  "freshPlayer characterType = projr (createPlayer characterType)"

definition freshOpponent :: "string \<Rightarrow> character" where
  "freshOpponent characterType = projr (createOpponent characterType)"

text \<open>The opponent of a fresh battle has raised its block.\<close>

definition blockingWorld :: world where
  "blockingWorld = snd (Character_startBlock ''opponent'' (freshBattle ''knight'' ''ninja''))"




text \<open>
  The opponent of a fresh battle after a hit of 100: its health is 0 and no tick has run
  yet.  One tick later it is dead.
\<close>

definition downedWorld :: world where
  "downedWorld = Character_takeDamage 100 ''opponent'' (freshBattle ''knight'' ''ninja'')"

definition deadWorld :: world where
  "deadWorld = Character_update (1 / 30) ''opponent'' downedWorld"

text \<open>The same for an opponent that was blocking when the hit arrived.\<close>

definition deadBlockingWorld :: world where
  "deadBlockingWorld =
     Character_update (1 / 30) ''opponent'' (Character_takeDamage 100 ''opponent'' blockingWorld)"

text \<open>
  A fresh battle in which the player has lost 10 health and the countdown stands one
  sixtieth of a second before its end.
\<close>

definition lastTickWorld :: world where
  "lastTickWorld =
     (Character_takeDamage 10 ''player'' (freshBattle ''knight'' ''ninja''))\<lparr>timeRemaining := 1 / 60\<rparr>"

text \<open>
  A static trigger zone with a registered \<^verbatim>\<open>onTriggerEnter\<close> handler, and a character
  body above it.  The body is thrown down into the zone (first tick), stays in it (second
  tick), is thrown up out of it (third tick) and down into it again (fourth tick); the
  throws are calls of \<^verbatim>\<open>setVelocity\<close> and every tick is a call of
  \<^verbatim>\<open>PhysicsEngine.update\<close> with a step of one thirtieth of a second.
\<close>

definition zoneConfig :: bodyConfig where
  "zoneConfig =
    \<lparr> cfg_x = Some 300, cfg_y = Some 300, cfg_width = Some 100, cfg_height = Some 100,
      cfg_vx = None, cfg_vy = None, cfg_mass = None, cfg_restitution = None,
      cfg_friction = None, cfg_isStatic = True, cfg_isTrigger = True, cfg_layer = ''hazard'',
      cfg_shape = None, cfg_radius = None, cfg_onCollisionEnter = False,
      cfg_onCollisionExit = False, cfg_onTriggerEnter = True \<rparr>"

definition zoneBody :: body where "zoneBody = newBody ''zone'' zoneConfig"

definition fallerBody :: body where
  "fallerBody = newBody ''player'' (characterBodyConfig (newCharacter ''player''
      \<lparr> ccfg_type = ''knight'', ccfg_x = Some 330, ccfg_y = Some 200, ccfg_width = None,
        ccfg_height = None, ccfg_maxHealth = None, ccfg_speed = None, ccfg_defense = None \<rparr>))"

definition zoneArena :: bodies where
  "zoneArena = AList.update ''player'' fallerBody (AList.update ''zone'' zoneBody [])"

definition zoneTick1 :: "bodies \<times> event list" where
  "zoneTick1 = PhysicsEngine_update (1 / 30) (setVelocity ''player'' 0 1500 zoneArena)"

definition zoneTick2 :: "bodies \<times> event list" where
  "zoneTick2 = PhysicsEngine_update (1 / 30) (fst zoneTick1)"

definition zoneTick3 :: "bodies \<times> event list" where
  "zoneTick3 = PhysicsEngine_update (1 / 30) (setVelocity ''player'' 0 (- 6000) (fst zoneTick2))"

definition zoneTick4 :: "bodies \<times> event list" where
  "zoneTick4 = PhysicsEngine_update (1 / 30) (setVelocity ''player'' 0 6000 (fst zoneTick3))"

definition zoneOverlap :: "bodies \<Rightarrow> bool" where
  "zoneOverlap bs =
    (case (getBody bs ''zone'', getBody bs ''player'') of
       (Some z, Some p) \<Rightarrow> checkCollision z p
     | _ \<Rightarrow> False)"



section \<open>Basic facts about the model\<close>

lemmas config_defs = gameConfig_maxHealth_def gameConfig_attackDamage_light_def
  gameConfig_moveSpeed_def gameConfig_dashSpeed_def gameConfig_dashDuration_def
  gameConfig_dashCooldown_def gameConfig_blockReduction_def gameConfig_blockCooldown_def
  gameConfig_arenaWidth_def gameConfig_arenaHeight_def gameConfig_battleDuration_def

lemmas setup_defs = freshBattle_def freshPlayer_def freshOpponent_def startBattle_def createPlayer_def
  createOpponent_def createCharacter_def characterTypes_def newCharacter_def characterBodyConfig_def createBody_def
  newBody_def getDefaultAbilities_def baseAbilities_def orElse_def config_defs

lemmas char_defs = takeDamage_def setAnimation_def updateSelf_def updateTimers_def
  updateAnimation_def getAnimationData_def updatePosition_def updateAbilities_def updateRage_def
  getSpeedMultiplier_def getDamageMultiplier_def

lemmas world_defs = getGameObject_def getBody_def updChar_def updPhysicsBody_def
  Character_takeDamage_def Character_update_def Character_die_def Character_move_def
  BattleSystem_handleCharacterDeath_def BattleSystem_endBattle_def

lemma getGameObject_updChar:
  "getGameObject (updChar i f w) j =
     (if j = i then map_option f (getGameObject w i) else getGameObject w j)"
  by (cases "getGameObject w i") (auto simp add: updChar_def getGameObject_def update_conv')

lemma bodies_updChar: "bodies (updChar i f w) = bodies w"
  by (simp add: updChar_def split: option.split)

lemma getGameObject_updPhysicsBody: "getGameObject (updPhysicsBody i f w) j = getGameObject w j"
  by (simp add: updPhysicsBody_def getGameObject_def split: option.split)






section \<open>Damage resolution\<close>




section \<open>Separation of solid bodies\<close>




text \<open>
  The collision data is the minimum translation along an axis: the overlap is the
  smaller of the two axis overlaps and the normal is a unit vector of that axis, pointing
  from the first body to the second.
\<close>

lemma calculateCollisionData_minimum_axis:
  "overlap (calculateCollisionData A B) =
     min ((b_width A + b_width B) / 2 - \<bar>(b_x B + b_width B / 2) - (b_x A + b_width A / 2)\<bar>)
         ((b_height A + b_height B) / 2 - \<bar>(b_y B + b_height B / 2) - (b_y A + b_height A / 2)\<bar>)
   \<and> (normalX (calculateCollisionData A B), normalY (calculateCollisionData A B))
        \<in> {(1, 0), (- 1, 0), (0, 1), (0, - 1)}"
  by (simp add: calculateCollisionData_def Let_def min_def)




section \<open>Blocking\<close>

lemma updChar_same:
  "getGameObject w i = Some c \<Longrightarrow> f c = c \<Longrightarrow> updChar i f w = w"
  by (simp add: updChar_def getGameObject_def update_triv)

lemma updChar_Some:
  "getGameObject w i = Some c \<Longrightarrow> updChar i f w = w\<lparr>gameObjects := AList.update i (f c) (gameObjects w)\<rparr>"
  by (simp add: updChar_def)

lemma updChar_updChar:
  "updChar i g (updChar i f w) = updChar i (g \<circ> f) w"
  by (cases "getGameObject w i") (simp_all add: updChar_def getGameObject_def update_conv')

lemma stopBlock_idem: "stopBlock \<circ> stopBlock = stopBlock"
  by (rule ext) (simp add: stopBlock_def)

lemma stopBlock_funpow: "(Character_stopBlock i ^^ Suc n) w = Character_stopBlock i w"
proof (induction n)
  case 0
  show ?case by simp
next
  case (Suc n)
  have "(Character_stopBlock i ^^ Suc (Suc n)) w = Character_stopBlock i ((Character_stopBlock i ^^ Suc n) w)"
    by simp
  also have "\<dots> = Character_stopBlock i (Character_stopBlock i w)"
    by (simp only: Suc.IH)
  also have "\<dots> = Character_stopBlock i w"
    by (simp add: Character_stopBlock_def updChar_updChar stopBlock_idem)
  finally show ?case .
qed

text \<open>
  Claim C10.  \<^verbatim>\<open>stopBlock\<close> has no precondition: whatever the state of the character
  (stunned, dead, not blocking), the call clears \<open>isBlocking\<close> and sets the block
  cooldown to the cooldown of the block ability, and nothing else in the world changes.
  Any number of repeated calls leaves the same state as one call, so the cooldown stays
  at its full value although the character never blocked; with a positive cooldown value
  a \<^verbatim>\<open>startBlock\<close> that follows at once is refused.
\<close>

theorem stopBlock_unconditional:
  assumes reg: "getGameObject w i = Some c"
  shows
    "(let c' = c\<lparr>isBlocking := False, blockCooldown := blk_cooldown (ab_block (abilities c))\<rparr>
      in Character_stopBlock i w = w\<lparr>gameObjects := AList.update i c' (gameObjects w)\<rparr>
       \<and> getGameObject (Character_stopBlock i w) i = Some c'
       \<and> (\<forall>j. j \<noteq> i \<longrightarrow> getGameObject (Character_stopBlock i w) j = getGameObject w j)
       \<and> (\<forall>n. (Character_stopBlock i ^^ Suc n) w = Character_stopBlock i w)
       \<and> (blk_cooldown (ab_block (abilities c)) > 0 \<longrightarrow>
            Character_startBlock i (Character_stopBlock i w) = (False, Character_stopBlock i w)))"
proof -
  let ?c' = "c\<lparr>isBlocking := False, blockCooldown := blk_cooldown (ab_block (abilities c))\<rparr>"
  have c': "stopBlock c = ?c'" by (simp add: stopBlock_def)
  have eq: "Character_stopBlock i w = w\<lparr>gameObjects := AList.update i ?c' (gameObjects w)\<rparr>"
    using reg by (simp add: Character_stopBlock_def updChar_Some c')
  have self: "getGameObject (Character_stopBlock i w) i = Some ?c'"
    using reg by (simp add: Character_stopBlock_def getGameObject_updChar c')
  have others: "\<forall>j. j \<noteq> i \<longrightarrow> getGameObject (Character_stopBlock i w) j = getGameObject w j"
    by (simp add: Character_stopBlock_def getGameObject_updChar)
  have iter: "\<forall>n. (Character_stopBlock i ^^ Suc n) w = Character_stopBlock i w"
    using stopBlock_funpow by blast
  have refused: "Character_startBlock i (Character_stopBlock i w) = (False, Character_stopBlock i w)"
    if "blk_cooldown (ab_block (abilities c)) > 0"
  proof -
    have "startBlock ?c' = (False, ?c')" using that by (simp add: startBlock_def)
    then show ?thesis
      using self by (simp add: Character_startBlock_def updChar_same)
  qed
  show ?thesis
    using eq self others iter refused by (simp only: Let_def) blast
qed

text \<open>
  The opponent of a fresh battle has never blocked and has no block cooldown; after one
  \<^verbatim>\<open>stopBlock\<close> its cooldown is 1 and its next \<^verbatim>\<open>startBlock\<close> is refused.
\<close>

theorem stopBlock_unconditional_witness:
  "map_option isBlocking (getGameObject (Character_stopBlock ''opponent'' (freshBattle ''knight'' ''ninja'')) ''opponent'') = Some False
   \<and> map_option blockCooldown (getGameObject (Character_stopBlock ''opponent'' (freshBattle ''knight'' ''ninja'')) ''opponent'') = Some 1
   \<and> map_option blockCooldown (getGameObject (freshBattle ''knight'' ''ninja'') ''opponent'') = Some 0
   \<and> fst (Character_startBlock ''opponent'' (Character_stopBlock ''opponent'' (freshBattle ''knight'' ''ninja''))) = False"
proof -
  have "\<exists>c. getGameObject (freshBattle ''knight'' ''ninja'') ''opponent'' = Some c
      \<and> blk_cooldown (ab_block (abilities c)) = 1 \<and> blockCooldown c = 0"
    by (simp add: getGameObject_def setup_defs Let_def)
  then obtain c where c: "getGameObject (freshBattle ''knight'' ''ninja'') ''opponent'' = Some c"
    and cd: "blk_cooldown (ab_block (abilities c)) = 1" and c0: "blockCooldown c = 0"
    by blast
  note th = stopBlock_unconditional[OF c, unfolded Let_def cd]
  from th have self: "getGameObject (Character_stopBlock ''opponent'' (freshBattle ''knight'' ''ninja''))
      ''opponent'' = Some (c\<lparr>isBlocking := False, blockCooldown := 1\<rparr>)"
    by blast
  from th[THEN conjunct2, THEN conjunct2, THEN conjunct2, THEN conjunct2]
  have refused: "Character_startBlock ''opponent''
      (Character_stopBlock ''opponent'' (freshBattle ''knight'' ''ninja''))
      = (False, Character_stopBlock ''opponent'' (freshBattle ''knight'' ''ninja''))"
    by simp
  show ?thesis
    by (simp add: self refused c c0)
qed

section \<open>Death\<close>

text \<open>
  Claim C3, as the code has it.  Once a registered character is marked dead (\<open>isDead\<close>,
  which \<^verbatim>\<open>die()\<close> sets during the tick update that finds no health left), the calls
  \<^verbatim>\<open>takeDamage\<close>, \<^verbatim>\<open>move\<close>, \<^verbatim>\<open>lightAttack\<close>, \<^verbatim>\<open>heavyAttack\<close>, \<^verbatim>\<open>specialAttack\<close>,
  \<^verbatim>\<open>startBlock\<close> and \<^verbatim>\<open>dash\<close> change nothing at all: no position, health, velocity or
  state flag of any character or body; the calls that report a result report a refusal.
\<close>

theorem dead_is_inert:
  assumes reg: "getGameObject w i = Some c" and dead: "isDead c"
  shows "Character_takeDamage amount i w = w
       \<and> Character_move deltaX deltaY i w = w
       \<and> Character_lightAttack i w = (False, w)
       \<and> Character_heavyAttack i w = (False, w)
       \<and> Character_specialAttack i w = (False, w)
       \<and> Character_startBlock i w = (False, w)
       \<and> Character_dash directionX directionY i w = (False, w)"
proof -
  have "takeDamage amount c = c" using dead by (simp add: takeDamage_def)
  then have td: "Character_takeDamage amount i w = w"
    using reg by (simp add: Character_takeDamage_def updChar_same)
  have "startBlock c = (False, c)" using dead by (simp add: startBlock_def)
  then have sb: "Character_startBlock i w = (False, w)"
    using reg by (simp add: Character_startBlock_def updChar_same)
  show ?thesis
    using reg dead td sb
    by (simp add: Character_move_def Character_lightAttack_def Character_heavyAttack_def
        Character_specialAttack_def Character_dash_def)
qed

text \<open>
  Claim C3 as stated fails between the hit and the next tick.  A hit of 100 leaves the
  opponent of a fresh battle at health 0, not yet marked dead; a \<^verbatim>\<open>move(-1, 0)\<close> before
  the next tick turns it round and sets the velocity of its body to -200.  It also fails
  for \<^verbatim>\<open>stopBlock\<close>, which has no guard: an opponent that died blocking is dead and
  blocking, and a \<^verbatim>\<open>stopBlock\<close> clears the flag and starts the block cooldown.
\<close>

theorem zero_health_still_moves:
  "map_option health (getGameObject downedWorld ''opponent'') = Some 0
   \<and> map_option facingRight (getGameObject downedWorld ''opponent'') = Some True
   \<and> map_option b_vx (getBody (bodies downedWorld) ''opponent'') = Some 0
   \<and> map_option facingRight (getGameObject (Character_move (- 1) 0 ''opponent'' downedWorld) ''opponent'') = Some False
   \<and> map_option b_vx (getBody (bodies (Character_move (- 1) 0 ''opponent'' downedWorld)) ''opponent'') = Some (- 200)
   \<and> map_option isDead (getGameObject deadBlockingWorld ''opponent'') = Some True
   \<and> map_option isBlocking (getGameObject deadBlockingWorld ''opponent'') = Some True
   \<and> map_option blockCooldown (getGameObject deadBlockingWorld ''opponent'') = Some 0
   \<and> map_option isBlocking (getGameObject (Character_stopBlock ''opponent'' deadBlockingWorld) ''opponent'') = Some False
   \<and> map_option blockCooldown (getGameObject (Character_stopBlock ''opponent'' deadBlockingWorld) ''opponent'') = Some 1"
  by (simp add: downedWorld_def deadBlockingWorld_def blockingWorld_def Character_startBlock_def
      startBlock_def Character_stopBlock_def stopBlock_def world_defs char_defs setup_defs Let_def)

lemma deadWorld_opponent:
  "\<exists>c. getGameObject deadWorld ''opponent'' = Some c \<and> isDead c"
  by (simp add: deadWorld_def downedWorld_def world_defs char_defs setup_defs Let_def)

text \<open>After the tick that marks the opponent dead, every one of the calls is without effect.\<close>

theorem dead_is_inert_witness:
  "Character_takeDamage 10 ''opponent'' deadWorld = deadWorld
   \<and> Character_move (- 1) 0 ''opponent'' deadWorld = deadWorld
   \<and> Character_lightAttack ''opponent'' deadWorld = (False, deadWorld)
   \<and> Character_heavyAttack ''opponent'' deadWorld = (False, deadWorld)
   \<and> Character_specialAttack ''opponent'' deadWorld = (False, deadWorld)
   \<and> Character_startBlock ''opponent'' deadWorld = (False, deadWorld)
   \<and> Character_dash 1 0 ''opponent'' deadWorld = (False, deadWorld)"
proof -
  from deadWorld_opponent obtain c where
    c: "getGameObject deadWorld ''opponent'' = Some c" and d: "isDead c" by blast
  show ?thesis by (rule dead_is_inert[OF c d])
qed

section \<open>Health bounds\<close>

lemma setAnimation_fields:
  "health (setAnimation n c) = health c" "maxHealth (setAnimation n c) = maxHealth c"
  "isDead (setAnimation n c) = isDead c" "c_id (setAnimation n c) = c_id c"
  "c_type (setAnimation n c) = c_type c"
  by (simp_all add: setAnimation_def)

lemma updateTimers_fields:
  "health (updateTimers dt c) = health c" "maxHealth (updateTimers dt c) = maxHealth c"
  "isDead (updateTimers dt c) = isDead c" "c_id (updateTimers dt c) = c_id c"
  "c_type (updateTimers dt c) = c_type c"
  by (simp_all add: updateTimers_def Let_def)

lemma updateAnimation_fields:
  "health (updateAnimation dt c) = health c" "maxHealth (updateAnimation dt c) = maxHealth c"
  "isDead (updateAnimation dt c) = isDead c" "c_id (updateAnimation dt c) = c_id c"
  "c_type (updateAnimation dt c) = c_type c"
  by (simp_all add: updateAnimation_def Let_def setAnimation_fields)

lemma updatePosition_fields:
  "health (updatePosition b c) = health c" "maxHealth (updatePosition b c) = maxHealth c"
  "isDead (updatePosition b c) = isDead c" "c_id (updatePosition b c) = c_id c"
  "c_type (updatePosition b c) = c_type c"
  by (simp_all add: updatePosition_def split: option.split)

lemma updateAbilities_fields:
  "health (updateAbilities dt c) = health c" "maxHealth (updateAbilities dt c) = maxHealth c"
  "isDead (updateAbilities dt c) = isDead c" "c_id (updateAbilities dt c) = c_id c"
  "c_type (updateAbilities dt c) = c_type c"
  by (simp_all add: updateAbilities_def updateRage_def Let_def split: option.split)

lemma updateSelf_fields:
  "health (updateSelf dt b c) = health c" "maxHealth (updateSelf dt b c) = maxHealth c"
  "isDead (updateSelf dt b c) = isDead c" "c_id (updateSelf dt b c) = c_id c"
  "c_type (updateSelf dt b c) = c_type c"
  by (simp_all add: updateSelf_def Let_def updateTimers_fields updateAnimation_fields
      updatePosition_fields updateAbilities_fields)

lemma getGameObject_handleCharacterDeath:
  "getGameObject (BattleSystem_handleCharacterDeath i w) j = getGameObject w j"
  by (simp add: BattleSystem_handleCharacterDeath_def BattleSystem_endBattle_def getGameObject_def)

lemma getGameObject_gameObjects_update:
  "getGameObject (w\<lparr>gameObjects := AList.update i c (gameObjects w)\<rparr>) j =
     (if j = i then Some c else getGameObject w j)"
  by (simp add: getGameObject_def update_conv')

lemma getGameObject_die:
  "getGameObject w i = Some c \<Longrightarrow>
   getGameObject (Character_die i w) j =
     (if j = i then Some (setAnimation ''death'' (c\<lparr>isDead := True, health := 0\<rparr>))
      else getGameObject w j)"
  by (simp add: Character_die_def Let_def getGameObject_handleCharacterDeath
      getGameObject_updPhysicsBody getGameObject_updChar)

lemma getGameObject_update_cases:
  assumes "getGameObject w i = Some c"
  shows "getGameObject (Character_update dt i w) j =
     (if j \<noteq> i then getGameObject w j
      else if isDead c then Some c
      else if health c \<le> 0
      then Some (setAnimation ''death''
                  ((updateSelf dt (getBody (bodies w) (c_id c)) c)\<lparr>isDead := True, health := 0\<rparr>))
      else Some (updateSelf dt (getBody (bodies w) (c_id c)) c))"
  using assms
  by (simp add: Character_update_def Let_def updateSelf_fields getGameObject_die
      getGameObject_gameObjects_update)






section \<open>End of the countdown\<close>

lemma flags_handleCharacterDeath_other:
  "i \<noteq> ''player'' \<Longrightarrow> i \<noteq> ''opponent'' \<Longrightarrow> BattleSystem_handleCharacterDeath i w = w"
  by (simp add: BattleSystem_handleCharacterDeath_def)

lemma flags_updChar:
  "isPlaying (updChar i f w) = isPlaying w" "isActive (updChar i f w) = isActive w"
  "timeRemaining (updChar i f w) = timeRemaining w" "winner (updChar i f w) = winner w"
  "battleResult (updChar i f w) = battleResult w" "isRunning (updChar i f w) = isRunning w"
  by (simp_all add: updChar_def split: option.split)

lemma flags_updPhysicsBody:
  "isPlaying (updPhysicsBody i f w) = isPlaying w" "isActive (updPhysicsBody i f w) = isActive w"
  "timeRemaining (updPhysicsBody i f w) = timeRemaining w" "winner (updPhysicsBody i f w) = winner w"
  "battleResult (updPhysicsBody i f w) = battleResult w" "isRunning (updPhysicsBody i f w) = isRunning w"
  by (simp_all add: updPhysicsBody_def split: option.split)

lemma flags_die_other:
  assumes "i \<noteq> ''player''" "i \<noteq> ''opponent''"
  shows "isPlaying (Character_die i w) = isPlaying w \<and> isActive (Character_die i w) = isActive w
     \<and> timeRemaining (Character_die i w) = timeRemaining w \<and> winner (Character_die i w) = winner w
     \<and> battleResult (Character_die i w) = battleResult w"
  using assms
  by (simp add: Character_die_def Let_def flags_handleCharacterDeath_other flags_updChar
      flags_updPhysicsBody split: option.split)

lemma Character_update_match:
  assumes p: "map_option health (getGameObject w ''player'') = Some hp"
    and o: "map_option health (getGameObject w ''opponent'') = Some ho"
    and pos: "0 < hp" "0 < ho"
  shows "map_option health (getGameObject (Character_update dt k w) ''player'') = Some hp
       \<and> map_option health (getGameObject (Character_update dt k w) ''opponent'') = Some ho
       \<and> isPlaying (Character_update dt k w) = isPlaying w
       \<and> isActive (Character_update dt k w) = isActive w
       \<and> timeRemaining (Character_update dt k w) = timeRemaining w
       \<and> winner (Character_update dt k w) = winner w
       \<and> battleResult (Character_update dt k w) = battleResult w"
proof (cases "getGameObject w k")
  case None
  then show ?thesis using p o by (simp add: Character_update_def)
next
  case (Some c)
  from p obtain pc where pc: "getGameObject w ''player'' = Some pc" "health pc = hp" by auto
  from o obtain oc where oc: "getGameObject w ''opponent'' = Some oc" "health oc = ho" by auto
  have healths: "map_option health (getGameObject (Character_update dt k w) ''player'') = Some hp
       \<and> map_option health (getGameObject (Character_update dt k w) ''opponent'') = Some ho"
    using Some pc oc pos
    by (auto simp add: getGameObject_update_cases updateSelf_fields)
  have flags: "isPlaying (Character_update dt k w) = isPlaying w
       \<and> isActive (Character_update dt k w) = isActive w
       \<and> timeRemaining (Character_update dt k w) = timeRemaining w
       \<and> winner (Character_update dt k w) = winner w
       \<and> battleResult (Character_update dt k w) = battleResult w"
  proof (cases "isDead c \<or> 0 < health c")
    case True
    then show ?thesis using Some
      by (auto simp add: Character_update_def Let_def updateSelf_fields)
  next
    case False
    then have "k \<noteq> ''player''" "k \<noteq> ''opponent''"
      using Some pc oc pos by auto
    then show ?thesis using Some False
      by (simp add: Character_update_def Let_def updateSelf_fields flags_die_other)
  qed
  from healths flags show ?thesis by simp
qed

lemma updateGameObjects_match:
  assumes "map_option health (getGameObject w ''player'') = Some hp"
    and "map_option health (getGameObject w ''opponent'') = Some ho"
    and "0 < hp" "0 < ho"
  shows "map_option health (getGameObject (foldl (\<lambda>w i. Character_update dt i w) w ks) ''player'') = Some hp
       \<and> map_option health (getGameObject (foldl (\<lambda>w i. Character_update dt i w) w ks) ''opponent'') = Some ho
       \<and> isPlaying (foldl (\<lambda>w i. Character_update dt i w) w ks) = isPlaying w
       \<and> isActive (foldl (\<lambda>w i. Character_update dt i w) w ks) = isActive w
       \<and> timeRemaining (foldl (\<lambda>w i. Character_update dt i w) w ks) = timeRemaining w
       \<and> winner (foldl (\<lambda>w i. Character_update dt i w) w ks) = winner w
       \<and> battleResult (foldl (\<lambda>w i. Character_update dt i w) w ks) = battleResult w"
  using assms
proof (induction ks arbitrary: w)
  case Nil
  then show ?case by simp
next
  case (Cons k ks)
  note step = Character_update_match[OF Cons.prems, of dt k]
  from step have p': "map_option health (getGameObject (Character_update dt k w) ''player'') = Some hp"
    and o': "map_option health (getGameObject (Character_update dt k w) ''opponent'') = Some ho"
    by simp_all
  from Cons.IH[OF p' o' Cons.prems(3,4)] step
  show ?case by simp
qed

lemma getGameObject_removeGameObject: "getGameObject (removeGameObject n w) = getGameObject w"
  by (rule ext) (simp add: removeGameObject_def getGameObject_def)

lemma frame_removeGameObject:
  "bodies (removeGameObject n w) = bodies w" "gameObjects (removeGameObject n w) = gameObjects w"
  "isPlaying (removeGameObject n w) = isPlaying w" "isActive (removeGameObject n w) = isActive w"
  "timeRemaining (removeGameObject n w) = timeRemaining w" "winner (removeGameObject n w) = winner w"
  "battleResult (removeGameObject n w) = battleResult w" "isRunning (removeGameObject n w) = isRunning w"
  "dateNow (removeGameObject n w) = dateNow w"
  by (simp_all add: removeGameObject_def)

lemma frame_takeDamage:
  "bodies (Character_takeDamage d t w) = bodies w"
  "isPlaying (Character_takeDamage d t w) = isPlaying w" "isActive (Character_takeDamage d t w) = isActive w"
  "timeRemaining (Character_takeDamage d t w) = timeRemaining w" "winner (Character_takeDamage d t w) = winner w"
  "battleResult (Character_takeDamage d t w) = battleResult w" "isRunning (Character_takeDamage d t w) = isRunning w"
  by (simp_all add: Character_takeDamage_def bodies_updChar flags_updChar)

text \<open>
  The update of a projectile touches the registry only: it leaves the bodies, the game
  state and the battle state alone, and every character stays registered.
\<close>

lemma frame_Projectile_update:
  "bodies (Projectile_update dt k w) = bodies w"
  "isPlaying (Projectile_update dt k w) = isPlaying w" "isActive (Projectile_update dt k w) = isActive w"
  "timeRemaining (Projectile_update dt k w) = timeRemaining w" "winner (Projectile_update dt k w) = winner w"
  "battleResult (Projectile_update dt k w) = battleResult w" "isRunning (Projectile_update dt k w) = isRunning w"
  by (simp_all add: Projectile_update_def Let_def frame_removeGameObject frame_takeDamage
      split: option.split)

lemma getGameObject_projectiles_update: "getGameObject (w\<lparr>projectiles := ps\<rparr>) = getGameObject w"
  by (rule ext) (simp add: getGameObject_def)

lemma registered_Projectile_update:
  "getGameObject (Projectile_update dt k w) j = None \<longleftrightarrow> getGameObject w j = None"
  by (simp add: Projectile_update_def Let_def getGameObject_removeGameObject
      Character_takeDamage_def getGameObject_updChar getGameObject_projectiles_update
      split: option.split)

lemma frame_fold_Projectile_update:
  "bodies (foldl (\<lambda>w k. Projectile_update dt k w) w ks) = bodies w"
  "isPlaying (foldl (\<lambda>w k. Projectile_update dt k w) w ks) = isPlaying w"
  "isActive (foldl (\<lambda>w k. Projectile_update dt k w) w ks) = isActive w"
  "timeRemaining (foldl (\<lambda>w k. Projectile_update dt k w) w ks) = timeRemaining w"
  "winner (foldl (\<lambda>w k. Projectile_update dt k w) w ks) = winner w"
  "battleResult (foldl (\<lambda>w k. Projectile_update dt k w) w ks) = battleResult w"
  "isRunning (foldl (\<lambda>w k. Projectile_update dt k w) w ks) = isRunning w"
  by (induction ks arbitrary: w) (simp_all add: frame_Projectile_update)

lemma registered_fold_Projectile_update:
  "getGameObject (foldl (\<lambda>w k. Projectile_update dt k w) w ks) j = None \<longleftrightarrow> getGameObject w j = None"
  by (induction ks arbitrary: w) (simp_all add: registered_Projectile_update)

lemma projectiles_updChar: "projectiles (updChar i f w) = projectiles w"
  by (simp add: updChar_def split: option.split)

lemma projectiles_updPhysicsBody: "projectiles (updPhysicsBody i f w) = projectiles w"
  by (simp add: updPhysicsBody_def split: option.split)

lemma projectiles_handleCharacterDeath:
  "projectiles (BattleSystem_handleCharacterDeath i w) = projectiles w"
  by (simp add: BattleSystem_handleCharacterDeath_def BattleSystem_endBattle_def)

lemma projectiles_die: "projectiles (Character_die i w) = projectiles w"
  by (simp add: Character_die_def Let_def projectiles_handleCharacterDeath
      projectiles_updPhysicsBody projectiles_updChar split: option.split)

lemma projectiles_die_update: "projectiles (Character_die i (w\<lparr>gameObjects := g\<rparr>)) = projectiles w"
  by (simp add: projectiles_die)

lemma projectiles_Character_update: "projectiles (Character_update dt i w) = projectiles w"
  by (simp add: Character_update_def Let_def projectiles_die_update split: option.split)

lemma projectiles_fold_Character_update:
  "projectiles (foldl (\<lambda>w i. Character_update dt i w) w ks) = projectiles w"
  by (induction ks arbitrary: w) (simp_all add: projectiles_Character_update)

text \<open>
  Claim C8.  Let the player and the opponent be registered with positive health in a
  running battle, and let a tick of the game engine take the countdown to 0 or below.
  Then the tick ends the match: the countdown is set to 0, the engine and the battle stop,
  the combatant with the strictly greater health at the end of that tick is the winner (a
  victory when it is the player, a defeat when it is the opponent), and the result is a
  draw exactly when the two healths are equal.  With no projectile in flight the healths
  at the end of the tick are the healths before it.
\<close>

theorem countdown_expiry_winner:
  assumes p: "getGameObject w ''player'' = Some player"
    and o: "getGameObject w ''opponent'' = Some opponent"
    and alive: "0 < health player" "0 < health opponent"
    and running: "isPlaying w" "isActive w"
    and time: "0 < timeRemaining w" "timeRemaining w - deltaTime \<le> 0"
  shows
    "(let w' = GameEngine_update deltaTime w
      in \<exists>p1 o1. getGameObject w' ''player'' = Some p1 \<and> getGameObject w' ''opponent'' = Some o1
       \<and> (projectiles w = [] \<longrightarrow> health p1 = health player \<and> health o1 = health opponent)
       \<and> timeRemaining w' = 0 \<and> \<not> isPlaying w' \<and> \<not> isRunning w' \<and> \<not> isActive w'
       \<and> winner w' = Some (if health p1 > health o1 then ''player''
                            else if health o1 > health p1 then ''opponent''
                            else ''draw'')
       \<and> battleResult w' = Some (if health p1 > health o1 then ''victory''
                                  else if health o1 > health p1 then ''defeat''
                                  else ''draw'')
       \<and> (battleResult w' = Some ''draw'' \<longleftrightarrow> health p1 = health o1))"
proof -
  let ?w0 = "foldl (\<lambda>w i. Character_update deltaTime i w) w (map fst (gameObjects w))"
  let ?w1 = "updateGameObjects deltaTime w"
  have w1: "?w1 = foldl (\<lambda>w k. Projectile_update deltaTime k w) ?w0 (map fst (projectiles ?w0))"
    by (simp add: updateGameObjects_def Let_def)
  have hp: "map_option health (getGameObject w ''player'') = Some (health player)"
    and ho: "map_option health (getGameObject w ''opponent'') = Some (health opponent)"
    using p o by simp_all
  note m = updateGameObjects_match[OF hp ho alive, of deltaTime "map fst (gameObjects w)"]
  from m obtain p0 o0 where
    p0: "getGameObject ?w0 ''player'' = Some p0" "health p0 = health player" and
    o0: "getGameObject ?w0 ''opponent'' = Some o0" "health o0 = health opponent"
    by auto
  from p0(1) have "getGameObject ?w1 ''player'' \<noteq> None"
    by (simp add: w1 registered_fold_Projectile_update)
  then obtain p1 where p1: "getGameObject ?w1 ''player'' = Some p1" by auto
  from o0(1) have "getGameObject ?w1 ''opponent'' \<noteq> None"
    by (simp add: w1 registered_fold_Projectile_update)
  then obtain o1 where o1: "getGameObject ?w1 ''opponent'' = Some o1" by auto
  have same: "health p1 = health player \<and> health o1 = health opponent" if "projectiles w = []"
  proof -
    from that have "projectiles ?w0 = []" by (simp add: projectiles_fold_Character_update)
    then have "?w1 = ?w0" by (simp add: w1)
    with p0 o0 p1 o1 show ?thesis by simp
  qed
  from m running time have f1: "isPlaying ?w1" "isActive ?w1" "0 < timeRemaining ?w1"
    "timeRemaining ?w1 - deltaTime \<le> 0"
    by (simp_all add: w1 frame_fold_Projectile_update)
  have g: "getGameObject (?w1\<lparr>timeRemaining := 0, isPlaying := False\<rparr>) = getGameObject ?w1"
    by (rule ext) (simp add: getGameObject_def)
  have "getGameObject (GameEngine_update deltaTime w) ''player'' = Some p1
      \<and> getGameObject (GameEngine_update deltaTime w) ''opponent'' = Some o1
      \<and> timeRemaining (GameEngine_update deltaTime w) = 0
      \<and> \<not> isPlaying (GameEngine_update deltaTime w) \<and> \<not> isRunning (GameEngine_update deltaTime w)
      \<and> \<not> isActive (GameEngine_update deltaTime w)
      \<and> winner (GameEngine_update deltaTime w) = Some (if health p1 > health o1 then ''player''
                            else if health o1 > health p1 then ''opponent''
                            else ''draw'')
      \<and> battleResult (GameEngine_update deltaTime w) = Some (if health p1 > health o1 then ''victory''
                                  else if health o1 > health p1 then ''defeat''
                                  else ''draw'')
      \<and> (battleResult (GameEngine_update deltaTime w) = Some ''draw'' \<longleftrightarrow> health p1 = health o1)"
    using p1 o1 f1 g
    by (simp add: GameEngine_update_def updateGameTimer_def Let_def GameEngine_endBattle_def
        BattleSystem_handleBattleEnd_def BattleSystem_endBattle_def getGameObject_def)
  with same show ?thesis
    unfolding Let_def by (intro exI[of _ p1] exI[of _ o1]) simp
qed

lemma lastTickWorld_state:
  "\<exists>p t. getGameObject lastTickWorld ''player'' = Some p \<and>
     getGameObject lastTickWorld ''opponent'' = Some t \<and> health p = 90 \<and> health t = 100 \<and>
     isPlaying lastTickWorld \<and> isActive lastTickWorld \<and> timeRemaining lastTickWorld = 1 / 60"
  by (simp add: lastTickWorld_def world_defs char_defs setup_defs Let_def)

text \<open>
  The player has 90 health and the opponent 100 when the countdown runs out: the opponent
  wins and the battle is a defeat.
\<close>

theorem countdown_expiry_winner_witness:
  "timeRemaining (GameEngine_update (1 / 30) lastTickWorld) = 0
   \<and> winner (GameEngine_update (1 / 30) lastTickWorld) = Some ''opponent''
   \<and> battleResult (GameEngine_update (1 / 30) lastTickWorld) = Some ''defeat''
   \<and> isPlaying (GameEngine_update (1 / 30) lastTickWorld) = False"
proof -
  from lastTickWorld_state obtain p t where
    p: "getGameObject lastTickWorld ''player'' = Some p" and
    t: "getGameObject lastTickWorld ''opponent'' = Some t" and
    h: "health p = 90" "health t = 100" and
    r: "isPlaying lastTickWorld" "isActive lastTickWorld" and
    tr: "timeRemaining lastTickWorld = 1 / 60"
    by blast
  have a: "0 < health p" "0 < health t" using h by simp_all
  have tm: "0 < timeRemaining lastTickWorld" "timeRemaining lastTickWorld - 1 / 30 \<le> 0"
    using tr by simp_all
  have np: "projectiles lastTickWorld = []"
    by (simp add: lastTickWorld_def Character_takeDamage_def projectiles_updChar setup_defs)
  let ?w' = "GameEngine_update (1 / 30) lastTickWorld"
  from countdown_expiry_winner[OF p t a r tm] obtain p1 o1 where
    c: "getGameObject ?w' ''player'' = Some p1 \<and> getGameObject ?w' ''opponent'' = Some o1
       \<and> (projectiles lastTickWorld = [] \<longrightarrow> health p1 = health p \<and> health o1 = health t)
       \<and> timeRemaining ?w' = 0 \<and> \<not> isPlaying ?w' \<and> \<not> isRunning ?w' \<and> \<not> isActive ?w'
       \<and> winner ?w' = Some (if health p1 > health o1 then ''player''
                            else if health o1 > health p1 then ''opponent''
                            else ''draw'')
       \<and> battleResult ?w' = Some (if health p1 > health o1 then ''victory''
                                  else if health o1 > health p1 then ''defeat''
                                  else ''draw'')
       \<and> (battleResult ?w' = Some ''draw'' \<longleftrightarrow> health p1 = health o1)"
    unfolding Let_def by (elim exE) (rule that)
  from c np h have "health p1 = 90" "health o1 = 100" by simp_all
  with c show ?thesis by simp
qed

section \<open>The tick of the game loop and the physics step\<close>

lemma positions_update:
  "map_of bs i = Some b \<Longrightarrow> b_x b' = b_x b \<Longrightarrow> b_y b' = b_y b \<Longrightarrow>
   positions (AList.update i b' bs) = positions bs"
  by (induction bs) (auto simp add: positions_def)

lemma positions_updPhysicsBody:
  "(\<And>b. b_x (f b) = b_x b \<and> b_y (f b) = b_y b) \<Longrightarrow>
   positions (bodies (updPhysicsBody i f w)) = positions (bodies w)"
  by (simp add: updPhysicsBody_def getBody_def positions_update split: option.split)

lemma bodies_handleCharacterDeath:
  "bodies (BattleSystem_handleCharacterDeath i w) = bodies w"
  by (simp add: BattleSystem_handleCharacterDeath_def BattleSystem_endBattle_def)

lemma positions_die: "positions (bodies (Character_die i w)) = positions (bodies w)"
  by (simp add: Character_die_def Let_def bodies_handleCharacterDeath positions_updPhysicsBody
      bodies_updChar split: option.split)

lemma positions_gameObjects_update:
  "positions (bodies (Character_die i (w\<lparr>gameObjects := g\<rparr>))) = positions (bodies w)"
  by (simp add: positions_die)

lemma positions_Character_update:
  "positions (bodies (Character_update dt i w)) = positions (bodies w)"
  by (simp add: Character_update_def Let_def positions_gameObjects_update split: option.split)

lemma positions_fold:
  "positions (bodies (foldl (\<lambda>w i. Character_update dt i w) w ks)) = positions (bodies w)"
  by (induction ks arbitrary: w) (simp_all add: positions_Character_update)

lemma bodies_updateGameTimer: "bodies (updateGameTimer dt w) = bodies w"
  by (simp add: updateGameTimer_def Let_def GameEngine_endBattle_def
      BattleSystem_handleBattleEnd_def BattleSystem_endBattle_def split: option.split prod.split)

lemma positions_GameEngine_update:
  "positions (bodies (GameEngine_update dt w)) = positions (bodies w)"
  by (simp add: GameEngine_update_def bodies_updateGameTimer updateGameObjects_def Let_def
      frame_fold_Projectile_update positions_fold)

lemma positions_gameLoop:
  "positions (bodies (GameEngine_gameLoop currentTime w)) = positions (bodies w)"
  by (simp add: GameEngine_gameLoop_def Let_def positions_GameEngine_update)

lemma rect_overlap:
  "b_shape a = Rectangle \<Longrightarrow> b_shape b = Rectangle \<Longrightarrow>
   checkCollision a b \<longleftrightarrow>
     b_x a < b_x b + b_width b \<and> b_x a + b_width a > b_x b \<and>
     b_y a < b_y b + b_height b \<and> b_y a + b_height a > b_y b"
  by (simp add: checkCollision_def checkRectangleCollision_def)


lemma constrainToArena_frame:
  "b_id (constrainToArena b) = b_id b" "b_width (constrainToArena b) = b_width b"
  "b_height (constrainToArena b) = b_height b" "b_mass (constrainToArena b) = b_mass b"
  "b_restitution (constrainToArena b) = b_restitution b" "b_friction (constrainToArena b) = b_friction b"
  "b_isStatic (constrainToArena b) = b_isStatic b" "b_isTrigger (constrainToArena b) = b_isTrigger b"
  "b_layer (constrainToArena b) = b_layer b" "b_shape (constrainToArena b) = b_shape b"
  "b_radius (constrainToArena b) = b_radius b" "b_onTriggerEnter (constrainToArena b) = b_onTriggerEnter b"
  "b_onCollisionEnter (constrainToArena b) = b_onCollisionEnter b"
  "b_collidingWith (constrainToArena b) = b_collidingWith b"
  by (simp_all add: constrainToArena_def Let_def)

lemma updateBody_frame:
  "b_id (updateBody b dt) = b_id b" "b_width (updateBody b dt) = b_width b"
  "b_height (updateBody b dt) = b_height b" "b_mass (updateBody b dt) = b_mass b"
  "b_restitution (updateBody b dt) = b_restitution b" "b_friction (updateBody b dt) = b_friction b"
  "b_isStatic (updateBody b dt) = b_isStatic b" "b_isTrigger (updateBody b dt) = b_isTrigger b"
  "b_layer (updateBody b dt) = b_layer b" "b_shape (updateBody b dt) = b_shape b"
  "b_radius (updateBody b dt) = b_radius b" "b_onTriggerEnter (updateBody b dt) = b_onTriggerEnter b"
  "b_onCollisionEnter (updateBody b dt) = b_onCollisionEnter b"
  "b_collidingWith (updateBody b dt) = b_collidingWith b"
  by (simp_all add: updateBody_def Let_def constrainToArena_frame)

lemma updateBody_static: "b_isStatic b \<Longrightarrow> updateBody b dt = b"
  by (simp add: updateBody_def)

lemma constrainToArena_inside:
  "10 \<le> b_x b \<Longrightarrow> b_x b + b_width b \<le> gameConfig_arenaWidth - 10 \<Longrightarrow>
   10 \<le> b_y b \<Longrightarrow> b_y b + b_height b \<le> gameConfig_arenaHeight - 10 \<Longrightarrow>
   constrainToArena b = b"
  by (simp add: constrainToArena_def Let_def)

lemma updateBody_falling:
  assumes "\<not> b_isStatic b" "\<not> b_grounded b" "0 < b_mass b" "b_vx b = 0"
    and "10 \<le> b_x b" "b_x b + b_width b \<le> gameConfig_arenaWidth - 10"
    and "10 \<le> b_y b + (b_vy b + gravity * dt) * dt"
    and "b_y b + (b_vy b + gravity * dt) * dt + b_height b \<le> gameConfig_arenaHeight - 10"
  shows "b_x (updateBody b dt) = b_x b"
    and "b_y (updateBody b dt) = b_y b + (b_vy b + gravity * dt) * dt"
    and "b_vx (updateBody b dt) = 0"
    and "b_vy (updateBody b dt) = b_vy b + gravity * dt"
    and "b_grounded (updateBody b dt) = False"
  using assms
  by (simp_all add: updateBody_def Let_def constrainToArena_inside)

lemma indexPairs_2: "indexPairs (Suc (Suc 0)) = [(0, Suc 0)]"
  by (simp add: indexPairs_def)

lemma checkCollisions_two:
  "checkCollisions [(k1, a), (k2, b)] =
     (if checkCollision a b
      then ([(k1, fst (resolveCollision a b)), (k2, fst (snd (resolveCollision a b)))],
            snd (snd (resolveCollision a b)))
      else ([(k1, a), (k2, b)], []))"
  by (simp add: checkCollisions_def indexPairs_2 checkPair_def Let_def split_beta)

lemma PhysicsEngine_update_two:
  "PhysicsEngine_update dt [(k1, a), (k2, b)] =
     (if checkCollision (updateBody a dt) (updateBody b dt)
      then ([(k1, fst (resolveCollision (updateBody a dt) (updateBody b dt))),
             (k2, fst (snd (resolveCollision (updateBody a dt) (updateBody b dt))))],
            snd (snd (resolveCollision (updateBody a dt) (updateBody b dt))))
      else ([(k1, updateBody a dt), (k2, updateBody b dt)], []))"
  by (simp add: PhysicsEngine_update_def checkCollisions_two)

lemma characterBody_fields:
  "b_id (newBody i (characterBodyConfig c)) = i"
  "b_x (newBody i (characterBodyConfig c)) = c_x c"
  "b_y (newBody i (characterBodyConfig c)) = c_y c"
  "b_width (newBody i (characterBodyConfig c)) = (if c_width c = 0 then 32 else c_width c)"
  "b_height (newBody i (characterBodyConfig c)) = (if c_height c = 0 then 32 else c_height c)"
  "b_vx (newBody i (characterBodyConfig c)) = 0"
  "b_vy (newBody i (characterBodyConfig c)) = 0"
  "b_mass (newBody i (characterBodyConfig c)) = 1"
  "\<not> b_isStatic (newBody i (characterBodyConfig c))"
  "\<not> b_isTrigger (newBody i (characterBodyConfig c))"
  "\<not> b_grounded (newBody i (characterBodyConfig c))"
  "b_shape (newBody i (characterBodyConfig c)) = Rectangle"
  by (simp_all add: newBody_def characterBodyConfig_def orElse_def)

text \<open>
  For the four character types the two characters are created and the battle starts,
  whatever the draw and the clocks; an empty player type gives a ninja, and a type that
  is in no table makes \<^verbatim>\<open>startBattle\<close> throw.
\<close>

lemma createCharacter_returns:
  "ty \<in> set characterTypes \<Longrightarrow> createPlayer ty = Inr (freshPlayer ty)"
  "ty \<in> set characterTypes \<Longrightarrow> createOpponent ty = Inr (freshOpponent ty)"
  by (simp_all add: freshPlayer_def freshOpponent_def createPlayer_def createOpponent_def
      createCharacter_def)

lemma startBattle_returns:
  assumes "p \<in> set characterTypes" "t \<in> set characterTypes"
  shows "startBattle p t r 0 0 = Inr (freshBattle p t)"
    and "\<exists>w. startBattle p t r now clock = Inr w"
proof -
  from assms have "p \<noteq> []" "t \<noteq> []" by (auto simp add: characterTypes_def)
  with assms show "startBattle p t r 0 0 = Inr (freshBattle p t)"
    and "\<exists>w. startBattle p t r now clock = Inr w"
    by (simp_all add: freshBattle_def startBattle_def createCharacter_returns)
qed

lemma startBattle_defaults:
  "startBattle [] ''knight'' r 0 0 = Inr (freshBattle ''ninja'' ''knight'')"
  "startBattle ''knight'' [] ''mage'' 0 0 = Inr (freshBattle ''knight'' ''mage'')"
  "startBattle ''wizard'' ''knight'' r now clock = Inl TypeError"
  "startBattle ''knight'' [] [] now clock = Inl TypeError"
  by (simp_all add: freshBattle_def startBattle_def createPlayer_def createOpponent_def
      createCharacter_def characterTypes_def inheritedKeys_def)

lemma fresh_character_fields:
  assumes "ty \<in> set characterTypes"
  shows "c_id (freshPlayer ty) = ''player''" "c_type (freshPlayer ty) = ty"
    "c_x (freshPlayer ty) = 150" "c_y (freshPlayer ty) = 400"
    "c_width (freshPlayer ty) = 40" "c_height (freshPlayer ty) = 60"
    "c_id (freshOpponent ty) = ''opponent''" "c_type (freshOpponent ty) = ty"
    "c_x (freshOpponent ty) = 610" "c_y (freshOpponent ty) = 400"
    "c_width (freshOpponent ty) = 40" "c_height (freshOpponent ty) = 60"
    "health (freshPlayer ty) = 100" "health (freshOpponent ty) = 100"
proof -
  from assms have ne: "ty \<noteq> []" by (auto simp add: characterTypes_def)
  show "c_id (freshPlayer ty) = ''player''" "c_type (freshPlayer ty) = ty"
    "c_x (freshPlayer ty) = 150" "c_y (freshPlayer ty) = 400"
    "c_width (freshPlayer ty) = 40" "c_height (freshPlayer ty) = 60"
    "c_id (freshOpponent ty) = ''opponent''" "c_type (freshOpponent ty) = ty"
    "c_x (freshOpponent ty) = 610" "c_y (freshOpponent ty) = 400"
    "c_width (freshOpponent ty) = 40" "c_height (freshOpponent ty) = 60"
    "health (freshPlayer ty) = 100" "health (freshOpponent ty) = 100"
    using assms ne
    by (simp_all add: freshPlayer_def freshOpponent_def createPlayer_def createOpponent_def
        createCharacter_def newCharacter_def orElse_def Let_def config_defs)
qed

lemmas battle_character_fields =
  fresh_character_fields[of "''knight''", simplified characterTypes_def, simplified]
  fresh_character_fields[of "''ninja''", simplified characterTypes_def, simplified]

lemma freshBattle_fields:
  assumes "p \<in> set characterTypes" "t \<in> set characterTypes"
  shows "bodies (freshBattle p t) =
     [(''player'', newBody ''player'' (characterBodyConfig (freshPlayer p))),
      (''opponent'', newBody ''opponent'' (characterBodyConfig (freshOpponent t)))]"
    and "gameObjects (freshBattle p t) = [(''player'', freshPlayer p), (''opponent'', freshOpponent t)]"
    and "projectiles (freshBattle p t) = []"
    and "isRunning (freshBattle p t)" and "lastTime (freshBattle p t) = 0"
    and "isPlaying (freshBattle p t)" and "\<not> isPaused (freshBattle p t)"
    and "timeRemaining (freshBattle p t) = 30" and "isActive (freshBattle p t)"
proof -
  from assms have ne: "p \<noteq> []" "t \<noteq> []" by (auto simp add: characterTypes_def)
  have w: "freshBattle p t =
      \<lparr> bodies = createBody ''opponent'' (characterBodyConfig (freshOpponent t))
                   (createBody ''player'' (characterBodyConfig (freshPlayer p)) []),
        gameObjects = AList.update ''opponent'' (freshOpponent t)
                        (AList.update ''player'' (freshPlayer p) []),
        projectiles = [], dateNow = 0,
        isRunning = True, lastTime = 0, isPlaying = True, isPaused = False,
        timeRemaining = gameConfig_battleDuration, winner = None,
        isActive = True, battleResult = None \<rparr>"
    using assms ne
    by (simp add: freshBattle_def startBattle_def createCharacter_returns fresh_character_fields)
  show "bodies (freshBattle p t) =
     [(''player'', newBody ''player'' (characterBodyConfig (freshPlayer p))),
      (''opponent'', newBody ''opponent'' (characterBodyConfig (freshOpponent t)))]"
    and "gameObjects (freshBattle p t) = [(''player'', freshPlayer p), (''opponent'', freshOpponent t)]"
    and "projectiles (freshBattle p t) = []"
    and "isRunning (freshBattle p t)" and "lastTime (freshBattle p t) = 0"
    and "isPlaying (freshBattle p t)" and "\<not> isPaused (freshBattle p t)"
    and "timeRemaining (freshBattle p t) = 30" and "isActive (freshBattle p t)"
    by (simp_all add: w createBody_def config_defs)
qed

lemmas startBattle_fields =
  freshBattle_fields[of "''knight''" "''ninja''", simplified characterTypes_def, simplified]

lemma getGameObject_lastTime: "getGameObject (w\<lparr>lastTime := t\<rparr>) = getGameObject w"
  by (rule ext) (simp add: getGameObject_def)

text \<open>
  Claim C4 fails on the code.  \<^verbatim>\<open>GameEngine.update\<close> updates the camera, the
  registered game objects, the particles and the countdown; it does not call
  \<^verbatim>\<open>PhysicsEngine.update\<close>, and no other method of the repository does.  In a fresh
  battle both combatants stand in mid-air at height 400.  An iteration of the game loop
  with the capped step of one thirtieth of a second lowers the countdown and leaves every
  body where it was, whereas the physics step for the same time would let both bodies
  fall by 49/45.  (By \<open>positions_gameLoop\<close> no iteration of the loop moves any body in
  any state.)
\<close>

theorem game_loop_skips_physics:
  "positions (bodies (freshBattle ''knight'' ''ninja'')) = [(''player'', 150, 400), (''opponent'', 610, 400)]
   \<and> positions (bodies (GameEngine_gameLoop 1000 (freshBattle ''knight'' ''ninja'')))
       = [(''player'', 150, 400), (''opponent'', 610, 400)]
   \<and> timeRemaining (GameEngine_gameLoop 1000 (freshBattle ''knight'' ''ninja'')) = 30 - 1 / 30
   \<and> positions (fst (PhysicsEngine_update (1 / 30) (bodies (freshBattle ''knight'' ''ninja''))))
       = [(''player'', 150, 400 + 49 / 45), (''opponent'', 610, 400 + 49 / 45)]"
proof -
  let ?w = "freshBattle ''knight'' ''ninja''"
  let ?pb = "newBody ''player'' (characterBodyConfig (freshPlayer ''knight''))"
  let ?ob = "newBody ''opponent'' (characterBodyConfig (freshOpponent ''ninja''))"
  have pos0: "positions (bodies ?w) = [(''player'', 150, 400), (''opponent'', 610, 400)]"
    by (simp add: positions_def startBattle_fields characterBody_fields battle_character_fields)
  have pos1: "positions (bodies (GameEngine_gameLoop 1000 ?w)) = [(''player'', 150, 400), (''opponent'', 610, 400)]"
    by (simp only: positions_gameLoop pos0)
  let ?w1 = "?w\<lparr>lastTime := 1000\<rparr>"
  have hp: "map_option health (getGameObject ?w1 ''player'') = Some 100"
    and ho: "map_option health (getGameObject ?w1 ''opponent'') = Some 100"
    by (simp_all add: getGameObject_def startBattle_fields battle_character_fields)
  note m = updateGameObjects_match[OF hp ho, of "1 / 30" "map fst (gameObjects ?w1)"]
  have t1: "timeRemaining (updateGameObjects (1 / 30) ?w1) = 30"
    and p1: "isPlaying (updateGameObjects (1 / 30) ?w1)"
    using m
    by (simp_all add: updateGameObjects_def Let_def frame_fold_Projectile_update startBattle_fields)
  have time: "timeRemaining (GameEngine_gameLoop 1000 ?w) = 30 - 1 / 30"
    by (simp add: GameEngine_gameLoop_def Let_def startBattle_fields GameEngine_update_def
        updateGameTimer_def t1 p1)
  have pby: "b_y (updateBody ?pb (1 / 30)) = 400 + 49 / 45" and pbx: "b_x (updateBody ?pb (1 / 30)) = 150"
    and oby: "b_y (updateBody ?ob (1 / 30)) = 400 + 49 / 45" and obx: "b_x (updateBody ?ob (1 / 30)) = 610"
    by (simp_all add: updateBody_falling characterBody_fields battle_character_fields updateBody_frame
        gravity_def gameConfig_arenaWidth_def gameConfig_arenaHeight_def)
  have phys: "positions (fst (PhysicsEngine_update (1 / 30) (bodies ?w)))
       = [(''player'', 150, 400 + 49 / 45), (''opponent'', 610, 400 + 49 / 45)]"
    by (simp add: startBattle_fields PhysicsEngine_update_two rect_overlap updateBody_frame
        characterBody_fields battle_character_fields pby pbx oby obx positions_def)
  from pos0 pos1 time phys show ?thesis by simp
qed

section \<open>Trigger notifications\<close>

lemma zoneBody_fields:
  "b_id zoneBody = ''zone''" "b_x zoneBody = 300" "b_y zoneBody = 300" "b_width zoneBody = 100"
  "b_height zoneBody = 100" "b_isStatic zoneBody" "b_isTrigger zoneBody"
  "b_shape zoneBody = Rectangle" "b_onTriggerEnter zoneBody" "b_collidingWith zoneBody = []"
  by (simp_all add: zoneBody_def zoneConfig_def newBody_def orElse_def)

lemma fallerBody_fields:
  "b_id fallerBody = ''player''" "b_x fallerBody = 330" "b_y fallerBody = 200"
  "b_width fallerBody = 40" "b_height fallerBody = 60" "\<not> b_isStatic fallerBody"
  "\<not> b_isTrigger fallerBody" "b_shape fallerBody = Rectangle" "b_mass fallerBody = 1"
  "\<not> b_grounded fallerBody" "b_vx fallerBody = 0" "b_vy fallerBody = 0"
  "b_collidingWith fallerBody = []"
  by (simp_all add: fallerBody_def characterBodyConfig_def newCharacter_def newBody_def orElse_def Let_def)

lemma zoneArena_list: "zoneArena = [(''zone'', zoneBody), (''player'', fallerBody)]"
  by (simp add: zoneArena_def)

lemma setVelocity_second:
  "k1 \<noteq> k2 \<Longrightarrow> \<not> b_isStatic b \<Longrightarrow>
   setVelocity k2 vx vy [(k1, a), (k2, b)] = [(k1, a), (k2, b\<lparr>b_vx := vx, b_vy := vy\<rparr>)]"
  by (simp add: setVelocity_def getBody_def)

lemma trigger_first:
  assumes "b_isTrigger a" "b_shape a = Rectangle" "b_shape b = Rectangle"
  shows "resolveCollision a b =
     (if b_id b \<notin> set (b_collidingWith a)
      then (a\<lparr>b_collidingWith := b_collidingWith a @ [b_id b]\<rparr>, b,
            if b_onTriggerEnter a then [TriggerEnter (b_id a) (b_id b)] else [])
      else (a, b, []))"
  using assms by (simp add: resolveCollision_def handleTriggerCollision_def Set_add_def Let_def)

lemmas faller_simps = zoneBody_fields fallerBody_fields updateBody_frame updateBody_static
  gravity_def gameConfig_arenaWidth_def gameConfig_arenaHeight_def

lemma tick1:
  "zoneTick1 = ([(''zone'', zoneBody\<lparr>b_collidingWith := [''player'']\<rparr>),
                 (''player'', updateBody (fallerBody\<lparr>b_vx := 0, b_vy := 1500\<rparr>) (1 / 30))],
                [TriggerEnter ''zone'' ''player''])"
proof -
  let ?p = "fallerBody\<lparr>b_vx := 0, b_vy := 1500\<rparr>"
  have y: "b_y (updateBody ?p (1 / 30)) = 200 + 2299 / 45" and x: "b_x (updateBody ?p (1 / 30)) = 330"
    by (simp_all add: updateBody_falling faller_simps)
  show ?thesis
    by (simp add: zoneTick1_def zoneArena_list setVelocity_second PhysicsEngine_update_two
        rect_overlap trigger_first faller_simps x y)
qed


lemma faller1:
  "b_x (updateBody (fallerBody\<lparr>b_vx := 0, b_vy := 1500\<rparr>) (1 / 30)) = 330"
  "b_y (updateBody (fallerBody\<lparr>b_vx := 0, b_vy := 1500\<rparr>) (1 / 30)) = 200 + 2299 / 45"
  "b_vx (updateBody (fallerBody\<lparr>b_vx := 0, b_vy := 1500\<rparr>) (1 / 30)) = 0"
  "b_vy (updateBody (fallerBody\<lparr>b_vx := 0, b_vy := 1500\<rparr>) (1 / 30)) = 4598 / 3"
  "\<not> b_grounded (updateBody (fallerBody\<lparr>b_vx := 0, b_vy := 1500\<rparr>) (1 / 30))"
  by (simp_all add: updateBody_falling faller_simps)

lemma faller2:
  "b_x (updateBody (updateBody (fallerBody\<lparr>b_vx := 0, b_vy := 1500\<rparr>) (1 / 30)) (1 / 30)) = 330"
  "b_y (updateBody (updateBody (fallerBody\<lparr>b_vx := 0, b_vy := 1500\<rparr>) (1 / 30)) (1 / 30)) = 200 + 4647 / 45"
  by (simp_all add: updateBody_falling faller_simps faller1)

lemma tick2:
  "zoneTick2 = ([(''zone'', zoneBody\<lparr>b_collidingWith := [''player'']\<rparr>),
                 (''player'', updateBody (updateBody (fallerBody\<lparr>b_vx := 0, b_vy := 1500\<rparr>) (1 / 30)) (1 / 30))],
                [])"
  by (simp add: zoneTick2_def tick1 PhysicsEngine_update_two rect_overlap trigger_first
      faller_simps faller2)

lemma faller3:
  "b_x (updateBody (updateBody (updateBody (fallerBody\<lparr>b_vx := 0, b_vy := 1500\<rparr>) (1 / 30)) (1 / 30)
          \<lparr>b_vx := 0, b_vy := - 6000\<rparr>) (1 / 30)) = 330"
  "b_y (updateBody (updateBody (updateBody (fallerBody\<lparr>b_vx := 0, b_vy := 1500\<rparr>) (1 / 30)) (1 / 30)
          \<lparr>b_vx := 0, b_vy := - 6000\<rparr>) (1 / 30)) = 200 - 4304 / 45"
  by (simp_all add: updateBody_falling faller_simps faller2)

lemma tick3:
  "zoneTick3 = ([(''zone'', zoneBody\<lparr>b_collidingWith := [''player'']\<rparr>),
                 (''player'', updateBody (updateBody (updateBody (fallerBody\<lparr>b_vx := 0, b_vy := 1500\<rparr>) (1 / 30)) (1 / 30)
                                \<lparr>b_vx := 0, b_vy := - 6000\<rparr>) (1 / 30))],
                [])"
  by (simp add: zoneTick3_def tick2 setVelocity_second PhysicsEngine_update_two rect_overlap
      faller_simps faller3)

lemma faller4:
  "b_x (updateBody (updateBody (updateBody (updateBody (fallerBody\<lparr>b_vx := 0, b_vy := 1500\<rparr>) (1 / 30)) (1 / 30)
          \<lparr>b_vx := 0, b_vy := - 6000\<rparr>) (1 / 30)\<lparr>b_vx := 0, b_vy := 6000\<rparr>) (1 / 30)) = 330"
  "b_y (updateBody (updateBody (updateBody (updateBody (fallerBody\<lparr>b_vx := 0, b_vy := 1500\<rparr>) (1 / 30)) (1 / 30)
          \<lparr>b_vx := 0, b_vy := - 6000\<rparr>) (1 / 30)\<lparr>b_vx := 0, b_vy := 6000\<rparr>) (1 / 30)) = 200 + 949 / 9"
  by (simp_all add: updateBody_falling faller_simps faller3)

lemma tick4:
  "zoneTick4 = ([(''zone'', zoneBody\<lparr>b_collidingWith := [''player'']\<rparr>),
                 (''player'', updateBody (updateBody (updateBody (updateBody (fallerBody\<lparr>b_vx := 0, b_vy := 1500\<rparr>) (1 / 30)) (1 / 30)
                                \<lparr>b_vx := 0, b_vy := - 6000\<rparr>) (1 / 30)\<lparr>b_vx := 0, b_vy := 6000\<rparr>) (1 / 30))],
                [])"
  by (simp add: zoneTick4_def tick3 setVelocity_second PhysicsEngine_update_two rect_overlap
      trigger_first faller_simps faller4)

text \<open>
  Claim C7 fails on the code.  The enter notification fires on the tick on which the body
  enters the trigger zone and not on the next tick, while the overlap lasts; the overlap
  changes no position of the zone.  But after the body has left the zone (third tick) and
  entered it again (fourth tick) no notification fires: the zone's \<open>collidingWith\<close> set
  still holds the body's id, because \<^verbatim>\<open>PhysicsEngine.update\<close> never calls
  \<^verbatim>\<open>cleanupCollisions\<close>.
\<close>

theorem trigger_enter_not_rearmed:
  "snd zoneTick1 = [TriggerEnter ''zone'' ''player''] \<and> zoneOverlap (fst zoneTick1)
   \<and> snd zoneTick2 = [] \<and> zoneOverlap (fst zoneTick2)
   \<and> snd zoneTick3 = [] \<and> \<not> zoneOverlap (fst zoneTick3)
   \<and> snd zoneTick4 = [] \<and> zoneOverlap (fst zoneTick4)
   \<and> positions (fst zoneTick4) = [(''zone'', 300, 300), (''player'', 330, 200 + 949 / 9)]"
  by (simp add: tick1 tick2 tick3 tick4 zoneOverlap_def getBody_def rect_overlap faller_simps
      faller1 faller2 faller3 faller4 positions_def)


text \<open>
  Had \<^verbatim>\<open>cleanupCollisions\<close> run after the third tick, the fourth tick would have
  notified the zone again.
\<close>

lemma cleanup_would_rearm:
  "snd (PhysicsEngine_update (1 / 30)
          (setVelocity ''player'' 0 6000 (fst (cleanupCollisions (fst zoneTick3)))))
     = [TriggerEnter ''zone'' ''player'']"
proof -
  have c: "fst (cleanupCollisions (fst zoneTick3)) =
     [(''zone'', zoneBody\<lparr>b_collidingWith := []\<rparr>),
      (''player'', updateBody (updateBody (updateBody (fallerBody\<lparr>b_vx := 0, b_vy := 1500\<rparr>) (1 / 30)) (1 / 30)
                                \<lparr>b_vx := 0, b_vy := - 6000\<rparr>) (1 / 30)\<lparr>b_collidingWith := []\<rparr>)]"
    by (simp add: tick3 cleanupCollisions_def stillColliding_def getBody_def rect_overlap
        faller_simps faller3)
  have f: "b_x (updateBody (updateBody (updateBody (updateBody (fallerBody\<lparr>b_vx := 0, b_vy := 1500\<rparr>) (1 / 30)) (1 / 30)
          \<lparr>b_vx := 0, b_vy := - 6000\<rparr>) (1 / 30)\<lparr>b_collidingWith := [], b_vx := 0, b_vy := 6000\<rparr>) (1 / 30)) = 330"
    "b_y (updateBody (updateBody (updateBody (updateBody (fallerBody\<lparr>b_vx := 0, b_vy := 1500\<rparr>) (1 / 30)) (1 / 30)
          \<lparr>b_vx := 0, b_vy := - 6000\<rparr>) (1 / 30)\<lparr>b_collidingWith := [], b_vx := 0, b_vy := 6000\<rparr>) (1 / 30)) = 200 + 949 / 9"
    by (simp_all add: updateBody_falling faller_simps faller3)
  show ?thesis
    by (simp add: c setVelocity_second PhysicsEngine_update_two rect_overlap
      trigger_first faller_simps f)
qed

section \<open>Timers\<close>

text \<open>
  The five timers of \<^verbatim>\<open>updateTimers\<close> decrease by the step and are clamped at 0, and a
  stun whose timer has run out is cleared.
\<close>

lemma updateTimers_clamped:
  "attackCooldown (updateTimers dt c) = max 0 (attackCooldown c - dt)
   \<and> blockCooldown (updateTimers dt c) = max 0 (blockCooldown c - dt)
   \<and> dashCooldown (updateTimers dt c) = max 0 (dashCooldown c - dt)
   \<and> stunDuration (updateTimers dt c) = max 0 (stunDuration c - dt)
   \<and> invulnerabilityTime (updateTimers dt c) = max 0 (invulnerabilityTime c - dt)
   \<and> (stunDuration c - dt \<le> 0 \<longrightarrow> \<not> isStunned (updateTimers dt c))"
  by (simp add: updateTimers_def Let_def)

lemma setAnimation_rage:
  "rageDuration (setAnimation n c) = rageDuration c" "rageCooldown (setAnimation n c) = rageCooldown c"
  by (simp_all add: setAnimation_def)

lemma updateTimers_rage:
  "rageDuration (updateTimers dt c) = rageDuration c" "rageCooldown (updateTimers dt c) = rageCooldown c"
  by (simp_all add: updateTimers_def Let_def)

lemma updateAnimation_rage:
  "rageDuration (updateAnimation dt c) = rageDuration c" "rageCooldown (updateAnimation dt c) = rageCooldown c"
  by (simp_all add: updateAnimation_def Let_def setAnimation_rage)

lemma updatePosition_rage:
  "rageDuration (updatePosition b c) = rageDuration c" "rageCooldown (updatePosition b c) = rageCooldown c"
  by (simp_all add: updatePosition_def split: option.split)

lemma updateRage_duration:
  "rageDuration (updateRage dt c) =
     (case rageDuration c of None \<Rightarrow> None | Some d \<Rightarrow> Some (if 0 < d then d - dt else d))"
  by (simp add: updateRage_def Let_def split: option.split)

lemma updateSelf_rageDuration:
  "c_type c = ''berserker'' \<Longrightarrow>
   rageDuration (updateSelf dt b c) =
     (case rageDuration c of None \<Rightarrow> None | Some d \<Rightarrow> Some (if 0 < d then d - dt else d))"
  by (simp add: updateSelf_def Let_def updateAbilities_def updateRage_duration updatePosition_rage
      updateAnimation_rage updateTimers_rage updatePosition_fields updateAnimation_fields
      updateTimers_fields)

lemma rage_ticks:
  assumes "getGameObject w i = Some c" "\<not> isDead c" "0 < health c" "c_type c = ''berserker''"
    and "rageDuration c = Some d" and "real n * dt < d + dt" and "0 \<le> dt"
  shows "\<exists>c'. getGameObject ((Character_update dt i ^^ n) w) i = Some c' \<and> \<not> isDead c'
            \<and> health c' = health c \<and> c_type c' = ''berserker''
            \<and> rageDuration c' = Some (d - real n * dt)"
  using assms(6)
proof (induction n)
  case 0
  then show ?case using assms(1-5) by simp
next
  case (Suc n)
  have "real n * dt < d + dt"
    using Suc.prems assms(7) by (simp add: algebra_simps)
  from Suc.IH[OF this] obtain c' where
    c': "getGameObject ((Character_update dt i ^^ n) w) i = Some c'" "\<not> isDead c'"
      "health c' = health c" "c_type c' = ''berserker''" "rageDuration c' = Some (d - real n * dt)"
    by blast
  have pos: "0 < d - real n * dt" using Suc.prems by (simp add: algebra_simps)
  let ?w = "(Character_update dt i ^^ n) w"
  let ?c'' = "updateSelf dt (getBody (bodies ?w) (c_id c')) c'"
  have g: "getGameObject (Character_update dt i ?w) i = Some ?c''"
    using c' assms(3) by (simp add: getGameObject_update_cases)
  have "rageDuration ?c'' = Some (d - real (Suc n) * dt)"
    using c' pos by (simp add: updateSelf_rageDuration algebra_simps)
  with g c' show ?case
    by (simp add: updateSelf_fields)
qed

lemma raging_player:
  "\<exists>c. getGameObject (snd (Character_rage ''player'' (freshBattle ''berserker'' ''ninja''))) ''player'' = Some c
     \<and> \<not> isDead c \<and> 0 < health c \<and> c_type c = ''berserker'' \<and> rageDuration c = Some 5"
  by (simp add: Character_rage_def rage_def getGameObject_def updChar_def setup_defs Let_def)

text \<open>
  Claim C5 fails on the code for the rage timers.  \<^verbatim>\<open>updateRage\<close> subtracts the step
  from a positive \<open>rageDuration\<close> (and \<open>rageCooldown\<close>) without clamping.  A berserker
  casts rage in a fresh battle, which sets the rage duration to 5; after 167 ticks of
  30 ms the rage duration is -0.01.
\<close>

theorem rage_duration_goes_negative:
  "map_option rageDuration
     (getGameObject ((Character_update (3 / 100) ''player'' ^^ 167)
                       (snd (Character_rage ''player'' (freshBattle ''berserker'' ''ninja''))))
        ''player'') = Some (Some (- (1 / 100)))"
proof -
  from raging_player obtain c where
    c: "getGameObject (snd (Character_rage ''player'' (freshBattle ''berserker'' ''ninja''))) ''player'' = Some c"
      "\<not> isDead c" "0 < health c" "c_type c = ''berserker''" "rageDuration c = Some 5"
    by blast
  have "real 167 * (3 / 100) < 5 + 3 / 100" and "(0::real) \<le> 3 / 100" by simp_all
  from rage_ticks[OF c this] show ?thesis by auto
qed

section \<open>The targets of an attack\<close>






























end
